theory Spec2Isabelle
  imports Complex_Main "HOL-Library.Word"
begin

section \<open>Audio notes: the note repository over a vector store\<close>

text \<open>
  A shallow embedding of \<^verbatim>\<open>app.py\<close>. The script talks to three outside parties: a
  vector store (through \<^verbatim>\<open>qdrant_client\<close>), an embedding and transcription provider
  (through \<^verbatim>\<open>openai\<close>) and the page framework (\<^verbatim>\<open>streamlit\<close>). None of them
  is code of the repository, so the model keeps their state and behaviour in one record,
  the world, and every function of the script is a state transformer on it that yields
  an outcome: a returned value, a raised exception, or a halted or restarted script run.
\<close>

subsection \<open>Constants of the script\<close>

definition EMBEDDING_MODEL :: string where
  "EMBEDDING_MODEL = ''text-embedding-3-large''"

definition EMBEDDING_DIM :: nat where
  "EMBEDDING_DIM = 3072"

definition AUDIO_TRANSCRIBE_MODEL :: string where
  "AUDIO_TRANSCRIBE_MODEL = ''whisper-1''"

definition QDRANT_COLLECTION_NAME :: string where
  "QDRANT_COLLECTION_NAME = ''notes''"

subsection \<open>Data\<close>

type_synonym bytes = "8 word list"
type_synonym vector = "real list"

text \<open>A payload is a Python dict with string keys; the script only uses the key \<^verbatim>\<open>text\<close>.\<close>

type_synonym payload = "(string \<times> string) list"

datatype distance = COSINE | EUCLID | DOT | MANHATTAN

text \<open>\<^verbatim>\<open>PointStruct(id=..., vector=..., payload=...)\<close>\<close>

record point_struct =
  point_id :: nat
  point_vector :: vector
  point_payload :: payload

text \<open>A hit of a similarity search: the stored record and the score the store gave it.\<close>

record scored_point =
  hit_id :: nat
  hit_payload :: payload
  hit_score :: real

text \<open>\<^verbatim>\<open>VectorParams(size=..., distance=...)\<close> and the points of one collection.\<close>

record collection =
  vectors_size :: nat
  vectors_distance :: distance
  points :: "point_struct list"

text \<open>The dicts \<^verbatim>\<open>{"text": ..., "score": ...}\<close> that \<^verbatim>\<open>list_notes_from_db\<close> builds.\<close>

record note_result =
  res_text :: string
  res_score :: "real option"

datatype qdrant_client = QdrantClient

text \<open>Python exceptions that derive from \<^verbatim>\<open>Exception\<close>.\<close>

datatype exn = ConnectionError | UnexpectedResponse | KeyError | IndexError

text \<open>
  The outcome of running a piece of the script. \<open>Stop\<close> is \<^verbatim>\<open>st.stop()\<close> and \<open>Rerun\<close> is
  \<^verbatim>\<open>st.rerun()\<close>: both end the current script run. They are control signals of the page
  framework and not \<^verbatim>\<open>Exception\<close>s, so an \<^verbatim>\<open>except Exception\<close> clause does not
  intercept them.
\<close>

datatype 'a outcome = Return 'a | Raise exn | Stop | Rerun

text \<open>Every request that leaves the process, in the order it was sent.\<close>

datatype call =
    GetCollections
  | CollectionExists string
  | CreateCollection string nat distance
  | Count string bool
  | Upsert string "point_struct list"
  | Scroll string nat
  | Search string vector nat
  | EmbeddingsCreate "string list" string nat
  | TranscriptionsCreate bytes string string

record world =
  \<comment> \<open>configuration\<close>
  secrets :: "(string \<times> string) list"
  env :: "(string \<times> string) list"
  \<comment> \<open>behaviour of the outside parties\<close>
  failing :: "nat \<Rightarrow> bool"
  embeddings_api :: "string list \<Rightarrow> string \<Rightarrow> nat \<Rightarrow> vector list"
  transcriptions_api :: "bytes \<Rightarrow> string \<Rightarrow> string"
  similarity :: "distance \<Rightarrow> vector \<Rightarrow> vector \<Rightarrow> real"
  md5_hexdigest :: "bytes \<Rightarrow> string"
  \<comment> \<open>the remote vector store\<close>
  collections :: "string \<rightharpoonup> collection"
  \<comment> \<open>the memo of \<^verbatim>\<open>@st.cache_resource\<close> for \<^verbatim>\<open>get_qdrant_client\<close>\<close>
  qdrant_cache :: "qdrant_client option option"
  \<comment> \<open>\<^verbatim>\<open>st.session_state\<close>\<close>
  openai_api_key :: "string option"
  note_audio_bytes_md5 :: "string option"
  note_audio_bytes :: "bytes option"
  note_text :: string
  note_audio_text :: string
  \<comment> \<open>the requests sent so far\<close>
  calls :: "call list"

type_synonym 'a prog = "world \<Rightarrow> 'a outcome \<times> world"

subsection \<open>Sequencing and exception handling\<close>

definition and_then :: "'a prog \<Rightarrow> ('a \<Rightarrow> 'b prog) \<Rightarrow> 'b prog" where
  "and_then m f w =
     (case m w of
        (Return x, w') \<Rightarrow> f x w'
      | (Raise e, w') \<Rightarrow> (Raise e, w')
      | (Stop, w') \<Rightarrow> (Stop, w')
      | (Rerun, w') \<Rightarrow> (Rerun, w'))"

definition return :: "'a \<Rightarrow> 'a prog" where
  "return x w = (Return x, w)"

definition raise :: "exn \<Rightarrow> 'a prog" where
  "raise e w = (Raise e, w)"

text \<open>\<^verbatim>\<open>try: m  except Exception as e: h\<close>. Only a raised exception reaches the handler.\<close>

definition try_except :: "'a prog \<Rightarrow> (exn \<Rightarrow> 'a prog) \<Rightarrow> 'a prog" where
  "try_except m h w =
     (case m w of
        (Raise e, w') \<Rightarrow> h e w'
      | r \<Rightarrow> r)"

definition st_stop :: "'a prog" where
  "st_stop w = (Stop, w)"

definition st_rerun :: "'a prog" where
  "st_rerun w = (Rerun, w)"

text \<open>Python truthiness of a string that may be \<^verbatim>\<open>None\<close>.\<close>

fun truthy :: "string option \<Rightarrow> bool" where
  "truthy None = False"
| "truthy (Some s) = (s \<noteq> [])"

subsection \<open>The outside parties\<close>

text \<open>
  One request to an outside party. It is written to the log; the request number \<open>k\<close> fails
  with a connection error when the world says so (\<open>failing w k\<close>), which covers every way a
  request can go wrong on the wire or at the remote end. A failed request has no effect.
\<close>

definition request :: "call \<Rightarrow> unit prog" where
  "request c w =
     (let k = length (calls w); w' = w\<lparr>calls := calls w @ [c]\<rparr>
      in if failing w k then (Raise ConnectionError, w') else (Return (), w'))"

text \<open>
  Modelled from the spec: the vector store client (the \<^verbatim>\<open>qdrant_client\<close> package is not
  part of the repository). Section 4.2 gives its operations: \<^verbatim>\<open>exists(name) -> bool\<close>,
  \<^verbatim>\<open>create(name, dim, metric)\<close>, \<^verbatim>\<open>count(name)\<close>, the exact number of points,
  \<^verbatim>\<open>upsert(id, vector, payload)\<close>, \<^verbatim>\<open>scrollFirst(name, limit)\<close>, a bounded subset of the
  records, and \<^verbatim>\<open>search(name, queryVector, limit)\<close>, the records with their scores in
  descending similarity. An operation on a collection that does not exist raises.
\<close>

fun upsert_point :: "point_struct \<Rightarrow> point_struct list \<Rightarrow> point_struct list" where
  "upsert_point p [] = [p]"
| "upsert_point p (q # qs) =
     (if point_id q = point_id p then p # qs else q # upsert_point p qs)"

definition with_collection :: "string \<Rightarrow> (collection \<Rightarrow> 'a prog) \<Rightarrow> 'a prog" where
  "with_collection name f w =
     (case collections w name of
        None \<Rightarrow> (Raise UnexpectedResponse, w)
      | Some c \<Rightarrow> f c w)"

definition qdrant_get_collections :: "unit prog" where
  "qdrant_get_collections = request GetCollections"

definition qdrant_collection_exists :: "string \<Rightarrow> bool prog" where
  "qdrant_collection_exists name =
     and_then (request (CollectionExists name))
       (\<lambda>_ w. (Return (collections w name \<noteq> None), w))"

definition qdrant_create_collection :: "string \<Rightarrow> nat \<Rightarrow> distance \<Rightarrow> unit prog" where
  "qdrant_create_collection name sz d =
     and_then (request (CreateCollection name sz d))
       (\<lambda>_ w. case collections w name of
           Some c \<Rightarrow> (Raise UnexpectedResponse, w)
         | None \<Rightarrow>
             (Return (),
              w\<lparr>collections := (collections w)
                   (name \<mapsto> \<lparr>vectors_size = sz, vectors_distance = d, points = []\<rparr>)\<rparr>))"

definition qdrant_count :: "string \<Rightarrow> bool \<Rightarrow> nat prog" where
  "qdrant_count name exact =
     and_then (request (Count name exact))
       (\<lambda>_. with_collection name (\<lambda>c. return (length (points c))))"

definition qdrant_upsert :: "string \<Rightarrow> point_struct list \<Rightarrow> unit prog" where
  "qdrant_upsert name ps =
     and_then (request (Upsert name ps))
       (\<lambda>_. with_collection name
          (\<lambda>c w. (Return (),
             w\<lparr>collections := (collections w)
                  (name \<mapsto> c\<lparr>points := foldl (\<lambda>qs p. upsert_point p qs) (points c) ps\<rparr>)\<rparr>)))"

definition qdrant_scroll :: "string \<Rightarrow> nat \<Rightarrow> point_struct list prog" where
  "qdrant_scroll name limit =
     and_then (request (Scroll name limit))
       (\<lambda>_. with_collection name (\<lambda>c. return (take limit (points c))))"

definition score_point :: "(vector \<Rightarrow> real) \<Rightarrow> point_struct \<Rightarrow> scored_point" where
  "score_point f p =
     \<lparr>hit_id = point_id p, hit_payload = point_payload p, hit_score = f (point_vector p)\<rparr>"

definition ranked :: "(vector \<Rightarrow> real) \<Rightarrow> point_struct list \<Rightarrow> nat \<Rightarrow> scored_point list" where
  "ranked f ps limit = take limit (sort_key (\<lambda>h. - hit_score h) (map (score_point f) ps))"

definition qdrant_search :: "string \<Rightarrow> vector \<Rightarrow> nat \<Rightarrow> scored_point list prog" where
  "qdrant_search name qv limit =
     and_then (request (Search name qv limit))
       (\<lambda>_. with_collection name
          (\<lambda>c w. (Return (ranked (similarity w (vectors_distance c) qv) (points c) limit), w)))"

text \<open>
  Modelled from the spec: the embedding and transcription provider (the \<^verbatim>\<open>openai\<close>
  package is not part of the repository). A request carries the input, the model and the
  dimensions, and its answer is the list \<^verbatim>\<open>data\<close> of embeddings; a transcription request
  carries the audio bytes and the model, and its answer has a \<^verbatim>\<open>text\<close> field.
\<close>

definition openai_embeddings_create :: "string list \<Rightarrow> string \<Rightarrow> nat \<Rightarrow> vector list prog" where
  "openai_embeddings_create input model dimensions =
     and_then (request (EmbeddingsCreate input model dimensions))
       (\<lambda>_ w. (Return (embeddings_api w input model dimensions), w))"

definition openai_transcriptions_create :: "bytes \<Rightarrow> string \<Rightarrow> string \<Rightarrow> string prog" where
  "openai_transcriptions_create file model response_format =
     and_then (request (TranscriptionsCreate file model response_format))
       (\<lambda>_ w. (Return (transcriptions_api w file model), w))"

subsection \<open>The functions of the script\<close>

text \<open>\<^verbatim>\<open>get_secret\<close>: the secret, or \<^verbatim>\<open>None\<close> when it cannot be read.\<close>

definition get_secret :: "string \<Rightarrow> world \<Rightarrow> string option" where
  "get_secret key w = map_of (secrets w) key"

text \<open>
  \<^verbatim>\<open>get_openai_client\<close>: \<^verbatim>\<open>a or b\<close> takes \<^verbatim>\<open>a\<close> when it is truthy. The client is
  represented by its key.
\<close>

definition get_openai_client :: "string prog" where
  "get_openai_client w =
     (let api_key = (if truthy (get_secret ''OPENAI_API_KEY'' w)
                     then get_secret ''OPENAI_API_KEY'' w else openai_api_key w)
      in if \<not> truthy api_key then st_stop w else (Return (the api_key), w))"

definition transcribe_audio :: "bytes \<Rightarrow> string prog" where
  "transcribe_audio audio_bytes =
     and_then get_openai_client
       (\<lambda>openai_client.
          openai_transcriptions_create audio_bytes AUDIO_TRANSCRIBE_MODEL ''verbose_json'')"

text \<open>
  \<^verbatim>\<open>get_qdrant_client\<close> under \<^verbatim>\<open>@st.cache_resource\<close>: the body runs when the memo is
  empty, and what it returns is kept, also when that is \<^verbatim>\<open>None\<close>.
\<close>

definition get_qdrant_client_body :: "qdrant_client option prog" where
  "get_qdrant_client_body =
     try_except
       (and_then qdrant_get_collections (\<lambda>collections. return (Some QdrantClient)))
       (\<lambda>e. return None)"

definition get_qdrant_client :: "qdrant_client option prog" where
  "get_qdrant_client w =
     (case qdrant_cache w of
        Some client \<Rightarrow> (Return client, w)
      | None \<Rightarrow>
          and_then get_qdrant_client_body
            (\<lambda>client w'. (Return client, w'\<lparr>qdrant_cache := Some client\<rparr>)) w)"

definition assure_db_collection_exists :: "unit prog" where
  "assure_db_collection_exists =
     and_then get_qdrant_client
       (\<lambda>qdrant_client.
          and_then (if qdrant_client = None then st_stop else return ())
            (\<lambda>_. try_except
               (and_then (qdrant_collection_exists QDRANT_COLLECTION_NAME)
                  (\<lambda>ex. if \<not> ex
                     then qdrant_create_collection QDRANT_COLLECTION_NAME EMBEDDING_DIM COSINE
                     else return ()))
               (\<lambda>e. st_stop)))"

text \<open>\<^verbatim>\<open>result.data[0]\<close> raises \<^verbatim>\<open>IndexError\<close> on an empty list.\<close>

definition get_embedding :: "string \<Rightarrow> vector prog" where
  "get_embedding txt =
     and_then get_openai_client
       (\<lambda>openai_client.
          and_then (openai_embeddings_create [txt] EMBEDDING_MODEL EMBEDDING_DIM)
            (\<lambda>data. case data of [] \<Rightarrow> raise IndexError | v # _ \<Rightarrow> return v))"

text \<open>
  \<^verbatim>\<open>add_note_to_db\<close>. The count is requested first; the arguments of \<^verbatim>\<open>upsert\<close> are
  evaluated before the call, so the embedding is requested before the upsert is sent.
\<close>

definition add_note_to_db_body :: "string \<Rightarrow> bool prog" where
  "add_note_to_db_body note_txt =
     and_then get_qdrant_client
       (\<lambda>qdrant_client.
          if qdrant_client = None then return False
          else
            and_then (qdrant_count QDRANT_COLLECTION_NAME True)
              (\<lambda>points_count.
                 and_then (get_embedding note_txt)
                   (\<lambda>v.
                      and_then
                        (qdrant_upsert QDRANT_COLLECTION_NAME
                           [\<lparr>point_id = points_count + 1, point_vector = v,
                             point_payload = [(''text'', note_txt)]\<rparr>])
                        (\<lambda>_. return True))))"

definition add_note_to_db :: "string \<Rightarrow> bool prog" where
  "add_note_to_db note_txt = try_except (add_note_to_db_body note_txt) (\<lambda>e. return False)"

text \<open>\<^verbatim>\<open>note.payload["text"]\<close> raises \<^verbatim>\<open>KeyError\<close> when the key is missing.\<close>

definition payload_text :: "payload \<Rightarrow> exn + string" where
  "payload_text p = (case map_of p ''text'' of None \<Rightarrow> Inl KeyError | Some t \<Rightarrow> Inr t)"

text \<open>The two \<^verbatim>\<open>for\<close> loops that build \<^verbatim>\<open>result\<close>; the first bad record raises.\<close>

fun unscored_results :: "point_struct list \<Rightarrow> exn + note_result list" where
  "unscored_results [] = Inr []"
| "unscored_results (note # notes) =
     (case payload_text (point_payload note) of
        Inl e \<Rightarrow> Inl e
      | Inr t \<Rightarrow>
          (case unscored_results notes of
             Inl e \<Rightarrow> Inl e
           | Inr rs \<Rightarrow> Inr (\<lparr>res_text = t, res_score = None\<rparr> # rs)))"

fun scored_results :: "scored_point list \<Rightarrow> exn + note_result list" where
  "scored_results [] = Inr []"
| "scored_results (note # notes) =
     (case payload_text (hit_payload note) of
        Inl e \<Rightarrow> Inl e
      | Inr t \<Rightarrow>
          (case scored_results notes of
             Inl e \<Rightarrow> Inl e
           | Inr rs \<Rightarrow> Inr (\<lparr>res_text = t, res_score = Some (hit_score note)\<rparr> # rs)))"

definition lift_result :: "exn + 'a \<Rightarrow> 'a prog" where
  "lift_result r = (case r of Inl e \<Rightarrow> raise e | Inr x \<Rightarrow> return x)"

text \<open>\<^verbatim>\<open>list_notes_from_db\<close>: \<^verbatim>\<open>not query\<close> holds for \<^verbatim>\<open>None\<close> and for the empty string.\<close>

definition list_notes_from_db_body :: "string option \<Rightarrow> note_result list prog" where
  "list_notes_from_db_body query =
     and_then get_qdrant_client
       (\<lambda>qdrant_client.
          if qdrant_client = None then return []
          else if \<not> truthy query then
            and_then (qdrant_scroll QDRANT_COLLECTION_NAME 10)
              (\<lambda>notes. lift_result (unscored_results notes))
          else
            and_then (get_embedding (the query))
              (\<lambda>v.
                 and_then (qdrant_search QDRANT_COLLECTION_NAME v 10)
                   (\<lambda>notes. lift_result (scored_results notes))))"

definition list_notes_from_db :: "string option \<Rightarrow> note_result list prog" where
  "list_notes_from_db query = try_except (list_notes_from_db_body query) (\<lambda>e. return [])"

subsection \<open>The script run\<close>

text \<open>
  What the page's widgets hand to one run of the script. \<open>recording\<close> is the captured
  audio after its export to mp3 bytes, \<open>None\<close> when nothing (or an empty clip) was
  recorded; \<open>text_area\<close> is what the edit box returns for a given initial value.
\<close>

record ui =
  clear_cache_button :: bool
  api_key_input :: string
  recording :: "bytes option"
  transcribe_button :: bool
  text_area :: "string \<Rightarrow> string"
  save_button :: bool
  query_input :: string
  search_button :: bool

text \<open>\<^verbatim>\<open>st.cache_resource.clear()\<close>\<close>

definition cache_resource_clear :: "unit prog" where
  "cache_resource_clear w = (Return (), w\<lparr>qdrant_cache := None\<rparr>)"

text \<open>The block that asks for the provider key when the session has none.\<close>

definition api_key_protection :: "ui \<Rightarrow> unit prog" where
  "api_key_protection u w =
     (if \<not> truthy (openai_api_key w) then
        (case map_of (env w) ''OPENAI_API_KEY'' of
           Some k \<Rightarrow> (Return (), w\<lparr>openai_api_key := Some k\<rparr>)
         | None \<Rightarrow>
             (let w' = w\<lparr>openai_api_key := Some (api_key_input u)\<rparr>
              in if api_key_input u \<noteq> [] then st_rerun w' else (Return (), w')))
      else (Return (), w))"

text \<open>
  The values the script gives the note fields of a session that has none yet. In
  \<open>world\<close> the fields are always present: a new session starts from these.
\<close>

definition new_session :: "world \<Rightarrow> world" where
  "new_session w =
     w\<lparr>note_audio_bytes_md5 := None, note_audio_bytes := None,
       note_text := [], note_audio_text := []\<rparr>"

text \<open>
  New audio arrives: its bytes are kept, and when their digest is not the stored one, the
  transcript and the edited text are emptied and the digest is stored.
\<close>

definition note_audio_captured :: "bytes \<Rightarrow> world \<Rightarrow> world" where
  "note_audio_captured audio w =
     (let w1 = w\<lparr>note_audio_bytes := Some audio\<rparr>;
          current_md5 = md5_hexdigest w1 audio
      in if note_audio_bytes_md5 w1 \<noteq> Some current_md5
         then w1\<lparr>note_audio_text := [], note_text := [],
                 note_audio_bytes_md5 := Some current_md5\<rparr>
         else w1)"

definition transcribe_step :: "ui \<Rightarrow> unit prog" where
  "transcribe_step u w =
     (if transcribe_button u then
        and_then (transcribe_audio (the (note_audio_bytes w)))
          (\<lambda>t w'. (Return (), w'\<lparr>note_audio_text := t\<rparr>)) w
      else (Return (), w))"

definition edit_step :: "ui \<Rightarrow> unit prog" where
  "edit_step u w =
     (if note_audio_text w \<noteq> []
      then (Return (), w\<lparr>note_text := text_area u (note_audio_text w)\<rparr>)
      else (Return (), w))"

definition save_step :: "ui \<Rightarrow> unit prog" where
  "save_step u w =
     (if note_text w \<noteq> [] \<and> save_button u then
        and_then (add_note_to_db (note_text w))
          (\<lambda>saved w'.
             if saved
             then (Return (),
                   w'\<lparr>note_text := [], note_audio_text := [], note_audio_bytes_md5 := None\<rparr>)
             else (Return (), w')) w
      else (Return (), w))"

definition add_tab :: "ui \<Rightarrow> unit prog" where
  "add_tab u w =
     (case recording u of
        None \<Rightarrow> (Return (), w)
      | Some audio \<Rightarrow>
          and_then (transcribe_step u)
            (\<lambda>_. and_then (edit_step u) (\<lambda>_. save_step u))
            (note_audio_captured audio w))"

text \<open>The search tab; the run yields the notes it shows, if it searched.\<close>

definition search_tab :: "ui \<Rightarrow> note_result list option prog" where
  "search_tab u =
     (if search_button u then
        and_then (list_notes_from_db (Some (query_input u))) (\<lambda>notes. return (Some notes))
      else return None)"

definition tabs :: "ui \<Rightarrow> note_result list option prog" where
  "tabs u = and_then (add_tab u) (\<lambda>_. search_tab u)"

text \<open>One run of the script from its first widget to its last line.\<close>

text \<open>The script from the bootstrap of the collection on.\<close>

definition bootstrap_and_tabs :: "ui \<Rightarrow> note_result list option prog" where
  "bootstrap_and_tabs u = and_then assure_db_collection_exists (\<lambda>_. tabs u)"

definition script :: "ui \<Rightarrow> note_result list option prog" where
  "script u =
     and_then (if clear_cache_button u
               then and_then cache_resource_clear (\<lambda>_. st_rerun) else return ())
       (\<lambda>_. and_then (api_key_protection u)
          (\<lambda>_. and_then (\<lambda>w. if \<not> truthy (openai_api_key w) then st_stop w else (Return (), w))
             (\<lambda>_. bootstrap_and_tabs u)))"

subsection \<open>Observations\<close>

definition notes_collection :: "world \<Rightarrow> collection option" where
  "notes_collection w = collections w QDRANT_COLLECTION_NAME"

text \<open>The exact point count of the collection, 0 when there is no collection.\<close>

definition notes_count :: "world \<Rightarrow> nat" where
  "notes_count w = (case notes_collection w of None \<Rightarrow> 0 | Some c \<Rightarrow> length (points c))"

definition notes_ids :: "world \<Rightarrow> nat set" where
  "notes_ids w = (case notes_collection w of None \<Rightarrow> {} | Some c \<Rightarrow> point_id ` set (points c))"

text \<open>A provider key is at hand, from the secrets or from the session.\<close>

definition has_api_key :: "world \<Rightarrow> bool" where
  "has_api_key w = (truthy (get_secret ''OPENAI_API_KEY'' w) \<or> truthy (openai_api_key w))"

text \<open>The requests sent between two worlds.\<close>

definition new_calls :: "world \<Rightarrow> world \<Rightarrow> call list" where
  "new_calls w w' = drop (length (calls w)) (calls w')"

fun is_embedding_call :: "call \<Rightarrow> bool" where
  "is_embedding_call (EmbeddingsCreate _ _ _) = True"
| "is_embedding_call _ = False"

fun is_mutation :: "call \<Rightarrow> bool" where
  "is_mutation (CreateCollection _ _ _) = True"
| "is_mutation (Upsert _ _) = True"
| "is_mutation _ = False"

text \<open>The requests that only \<^verbatim>\<open>add_note_to_db\<close> and \<^verbatim>\<open>list_notes_from_db\<close> send.\<close>

fun is_repository_call :: "call \<Rightarrow> bool" where
  "is_repository_call (Count _ _) = True"
| "is_repository_call (Upsert _ _) = True"
| "is_repository_call (Scroll _ _) = True"
| "is_repository_call (Search _ _ _) = True"
| "is_repository_call (EmbeddingsCreate _ _ _) = True"
| "is_repository_call _ = False"

fun is_search_call :: "call \<Rightarrow> bool" where
  "is_search_call (Search _ _ _) = True"
| "is_search_call _ = False"

text \<open>What \<^verbatim>\<open>get_qdrant_client\<close> sends: the probe, unless the memo is filled.\<close>

definition probe_calls :: "world \<Rightarrow> call list" where
  "probe_calls w = (if qdrant_cache w = None then [GetCollections] else [])"

text \<open>\<^verbatim>\<open>get_qdrant_client\<close> yields a client: from the memo, or by a probe that succeeds.\<close>

definition connects :: "world \<Rightarrow> bool" where
  "connects w =
     (case qdrant_cache w of
        Some client \<Rightarrow> client \<noteq> None
      | None \<Rightarrow> \<not> failing w (length (calls w)))"

text \<open>The number of the first request after \<^verbatim>\<open>get_qdrant_client\<close>.\<close>

definition after_probe :: "world \<Rightarrow> nat" where
  "after_probe w = length (calls w) + length (probe_calls w)"

text \<open>One of the requests sent between two worlds failed.\<close>

definition a_request_failed :: "world \<Rightarrow> world \<Rightarrow> bool" where
  "a_request_failed w w' = list_ex (failing w) [length (calls w)..<length (calls w')]"

text \<open>
  Nothing stands in the way of \<^verbatim>\<open>add_note_to_db\<close>: a client, a collection, a provider
  key, three requests that do not fail, and an answer of the provider that has a vector.
\<close>

definition add_note_goes_through :: "string \<Rightarrow> world \<Rightarrow> bool" where
  "add_note_goes_through t w =
     (connects w \<and> notes_collection w \<noteq> None \<and> has_api_key w
      \<and> \<not> failing w (after_probe w) \<and> \<not> failing w (after_probe w + 1)
      \<and> \<not> failing w (after_probe w + 2)
      \<and> embeddings_api w [t] EMBEDDING_MODEL EMBEDDING_DIM \<noteq> [])"

text \<open>
  The provider's contract at one text: a request with \<^verbatim>\<open>dimensions: D\<close> is answered with
  one vector of length \<open>D\<close>.
\<close>

definition provider_keeps_contract :: "world \<Rightarrow> string \<Rightarrow> bool" where
  "provider_keeps_contract w t =
     (case embeddings_api w [t] EMBEDDING_MODEL EMBEDDING_DIM of
        [v] \<Rightarrow> length v = EMBEDDING_DIM
      | _ \<Rightarrow> False)"

subsection \<open>Sample worlds\<close>

definition sample_point :: "nat \<Rightarrow> string \<Rightarrow> real \<Rightarrow> point_struct" where
  "sample_point i t x =
     \<lparr>point_id = i, point_vector = [x], point_payload = [(''text'', t)]\<rparr>"

text \<open>
  A session after the bootstrap: the connection is in the memo, a key is in the session,
  no request fails, the provider answers a request for \<open>d\<close> dimensions with one vector of
  \<open>d\<close> zeros per input, and a record's score is the first component of its vector.
\<close>

definition sample_world :: "point_struct list \<Rightarrow> world" where
  "sample_world ps =
     \<lparr>secrets = [], env = [],
      failing = (\<lambda>k. False),
      embeddings_api = (\<lambda>input model d. map (\<lambda>t. replicate d 0) input),
      transcriptions_api = (\<lambda>file model. ''hello''),
      similarity = (\<lambda>d q v. case v of [] \<Rightarrow> 0 | x # _ \<Rightarrow> x),
      md5_hexdigest = (\<lambda>b. replicate (length b) CHR ''a''),
      collections = [QDRANT_COLLECTION_NAME \<mapsto>
        \<lparr>vectors_size = EMBEDDING_DIM, vectors_distance = COSINE, points = ps\<rparr>],
      qdrant_cache = Some (Some QdrantClient),
      openai_api_key = Some ''sk'',
      note_audio_bytes_md5 = None, note_audio_bytes = None,
      note_text = [], note_audio_text = [],
      calls = []\<rparr>"

text \<open>Before the first run: no collection in the store and an empty memo.\<close>

definition fresh_world :: world where
  "fresh_world = (sample_world [])\<lparr>collections := Map.empty, qdrant_cache := None\<rparr>"

text \<open>The same with a store that cannot be reached: every request fails.\<close>

definition offline_world :: world where
  "offline_world = fresh_world\<lparr>failing := (\<lambda>k. True)\<rparr>"

text \<open>A connection in the memo and a store that has gone away since.\<close>

definition failing_world :: world where
  "failing_world = (sample_world [])\<lparr>failing := (\<lambda>k. True)\<rparr>"

text \<open>A draft in progress: three bytes of audio, their digest, a transcript and its edit.\<close>

definition drafting_world :: world where
  "drafting_world =
     (sample_world [])\<lparr>note_audio_bytes_md5 := Some ''aaa'', note_audio_bytes := Some [1, 2, 3],
       note_text := ''buy milk'', note_audio_text := ''buy mlik''\<rparr>"

text \<open>
  Runs in which the user presses one button, as a page can report at most one per run:
  the search button with a query typed in, or the clear-cache button.
\<close>

definition search_ui :: ui where
  "search_ui =
     \<lparr>clear_cache_button = False, api_key_input = [], recording = None,
      transcribe_button = False, text_area = (\<lambda>s. s), save_button = False,
      query_input = ''milk'', search_button = True\<rparr>"

definition reconnect_ui :: ui where
  "reconnect_ui = search_ui\<lparr>clear_cache_button := True, search_button := False\<rparr>"

text \<open>
  The store is back after a run that halted on it: the world that run left behind, with
  requests that no longer fail. Nothing else is touched; the memo still holds the client.
\<close>

definition recovered_world :: world where
  "recovered_world = (snd (script search_ui failing_world))\<lparr>failing := (\<lambda>k. False)\<rparr>"

section \<open>Basic facts\<close>

text \<open>Each function as one case distinction over what the world holds.\<close>

lemmas prog_defs = and_then_def try_except_def return_def raise_def st_stop_def st_rerun_def
  request_def with_collection_def lift_result_def

lemma get_qdrant_client_eq:
  "get_qdrant_client w =
     (case qdrant_cache w of
        Some c \<Rightarrow> (Return c, w)
      | None \<Rightarrow>
          if failing w (length (calls w))
          then (Return None, w\<lparr>calls := calls w @ [GetCollections], qdrant_cache := Some None\<rparr>)
          else (Return (Some QdrantClient),
                w\<lparr>calls := calls w @ [GetCollections], qdrant_cache := Some (Some QdrantClient)\<rparr>))"
  by (simp add: get_qdrant_client_def get_qdrant_client_body_def prog_defs
      qdrant_get_collections_def Let_def split: option.splits)

lemma get_openai_client_eq:
  "get_openai_client w =
     (if has_api_key w
      then (Return (the (if truthy (get_secret ''OPENAI_API_KEY'' w)
                         then get_secret ''OPENAI_API_KEY'' w else openai_api_key w)), w)
      else (Stop, w))"
  by (simp add: get_openai_client_def has_api_key_def st_stop_def Let_def)

lemma get_embedding_eq:
  "get_embedding t w =
     (if \<not> has_api_key w then (Stop, w)
      else let w1 = w\<lparr>calls := calls w @ [EmbeddingsCreate [t] EMBEDDING_MODEL EMBEDDING_DIM]\<rparr>
        in if failing w (length (calls w)) then (Raise ConnectionError, w1)
           else case embeddings_api w [t] EMBEDDING_MODEL EMBEDDING_DIM of
                  [] \<Rightarrow> (Raise IndexError, w1)
                | v # _ \<Rightarrow> (Return v, w1))"
  by (simp add: get_embedding_def get_openai_client_eq openai_embeddings_create_def prog_defs Let_def
      split: list.splits)

lemma qdrant_count_eq:
  "qdrant_count name exact w =
     (let w1 = w\<lparr>calls := calls w @ [Count name exact]\<rparr>
      in if failing w (length (calls w)) then (Raise ConnectionError, w1)
         else case collections w name of
                None \<Rightarrow> (Raise UnexpectedResponse, w1)
              | Some c \<Rightarrow> (Return (length (points c)), w1))"
  by (simp add: qdrant_count_def prog_defs Let_def split: option.splits)

lemma qdrant_upsert_eq:
  "qdrant_upsert name [p] w =
     (let w1 = w\<lparr>calls := calls w @ [Upsert name [p]]\<rparr>
      in if failing w (length (calls w)) then (Raise ConnectionError, w1)
         else case collections w name of
                None \<Rightarrow> (Raise UnexpectedResponse, w1)
              | Some c \<Rightarrow>
                  (Return (), w1\<lparr>collections := (collections w)
                     (name \<mapsto> c\<lparr>points := upsert_point p (points c)\<rparr>)\<rparr>))"
  by (simp add: qdrant_upsert_def prog_defs Let_def split: option.splits)

lemma qdrant_scroll_eq:
  "qdrant_scroll name limit w =
     (let w1 = w\<lparr>calls := calls w @ [Scroll name limit]\<rparr>
      in if failing w (length (calls w)) then (Raise ConnectionError, w1)
         else case collections w name of
                None \<Rightarrow> (Raise UnexpectedResponse, w1)
              | Some c \<Rightarrow> (Return (take limit (points c)), w1))"
  by (simp add: qdrant_scroll_def prog_defs Let_def split: option.splits)

lemma qdrant_search_eq:
  "qdrant_search name qv limit w =
     (let w1 = w\<lparr>calls := calls w @ [Search name qv limit]\<rparr>
      in if failing w (length (calls w)) then (Raise ConnectionError, w1)
         else case collections w name of
                None \<Rightarrow> (Raise UnexpectedResponse, w1)
              | Some c \<Rightarrow>
                  (Return (ranked (similarity w (vectors_distance c) qv) (points c) limit), w1))"
  by (simp add: qdrant_search_def prog_defs Let_def split: option.splits)

lemma lift_result_eq:
  "lift_result r w = (case r of Inl e \<Rightarrow> (Raise e, w) | Inr x \<Rightarrow> (Return x, w))"
  by (simp add: lift_result_def raise_def return_def split: sum.splits)

lemma has_api_key_frame [simp]:
  "has_api_key (w\<lparr>calls := cs\<rparr>) = has_api_key w"
  "has_api_key (w\<lparr>qdrant_cache := m\<rparr>) = has_api_key w"
  "has_api_key (w\<lparr>collections := m'\<rparr>) = has_api_key w"
  by (simp_all add: has_api_key_def get_secret_def)

lemma add_note_eq:
  "add_note_to_db t w =
     (let w0 = snd (get_qdrant_client w);
          w1 = w0\<lparr>calls := calls w0 @ [Count QDRANT_COLLECTION_NAME True]\<rparr>;
          w2 = w1\<lparr>calls := calls w1 @ [EmbeddingsCreate [t] EMBEDDING_MODEL EMBEDDING_DIM]\<rparr>
      in if \<not> connects w then (Return False, w0)
         else if failing w (after_probe w) then (Return False, w1)
         else case notes_collection w of
           None \<Rightarrow> (Return False, w1)
         | Some c \<Rightarrow>
             if \<not> has_api_key w then (Stop, w1)
             else if failing w (after_probe w + 1) then (Return False, w2)
             else (case embeddings_api w [t] EMBEDDING_MODEL EMBEDDING_DIM of
               [] \<Rightarrow> (Return False, w2)
             | v # _ \<Rightarrow>
                 (let p = \<lparr>point_id = length (points c) + 1, point_vector = v,
                           point_payload = [(''text'', t)]\<rparr>;
                      w3 = w2\<lparr>calls := calls w2 @ [Upsert QDRANT_COLLECTION_NAME [p]]\<rparr>
                  in if failing w (after_probe w + 2) then (Return False, w3)
                     else (Return True,
                           w3\<lparr>collections := (collections w)
                                (QDRANT_COLLECTION_NAME \<mapsto> c\<lparr>points := upsert_point p (points c)\<rparr>)\<rparr>))))"
  by (auto simp add: add_note_to_db_def add_note_to_db_body_def get_qdrant_client_eq and_then_def
      try_except_def return_def qdrant_count_eq get_embedding_eq qdrant_upsert_eq Let_def
      notes_collection_def connects_def after_probe_def probe_calls_def
      split: option.splits list.splits)

lemma list_notes_eq:
  "list_notes_from_db query w =
     (let w0 = snd (get_qdrant_client w) in
      if \<not> connects w then (Return [], w0)
      else if \<not> truthy query then
        (let w1 = w0\<lparr>calls := calls w0 @ [Scroll QDRANT_COLLECTION_NAME 10]\<rparr> in
         if failing w (after_probe w) then (Return [], w1)
         else case notes_collection w of
           None \<Rightarrow> (Return [], w1)
         | Some c \<Rightarrow>
             (case unscored_results (take 10 (points c)) of
                Inl e \<Rightarrow> (Return [], w1)
              | Inr rs \<Rightarrow> (Return rs, w1)))
      else if \<not> has_api_key w then (Stop, w0)
      else
        (let w1 = w0\<lparr>calls := calls w0 @
                    [EmbeddingsCreate [the query] EMBEDDING_MODEL EMBEDDING_DIM]\<rparr> in
         if failing w (after_probe w) then (Return [], w1)
         else case embeddings_api w [the query] EMBEDDING_MODEL EMBEDDING_DIM of
           [] \<Rightarrow> (Return [], w1)
         | v # _ \<Rightarrow>
             (let w2 = w1\<lparr>calls := calls w1 @ [Search QDRANT_COLLECTION_NAME v 10]\<rparr> in
              if failing w (after_probe w + 1) then (Return [], w2)
              else case notes_collection w of
                None \<Rightarrow> (Return [], w2)
              | Some c \<Rightarrow>
                  (case scored_results
                          (ranked (similarity w (vectors_distance c) v) (points c) 10) of
                     Inl e \<Rightarrow> (Return [], w2)
                   | Inr rs \<Rightarrow> (Return rs, w2)))))"
  by (auto simp add: list_notes_from_db_def list_notes_from_db_body_def get_qdrant_client_eq
      and_then_def try_except_def return_def qdrant_scroll_eq qdrant_search_eq get_embedding_eq
      lift_result_eq Let_def notes_collection_def connects_def after_probe_def probe_calls_def
      split: option.splits list.splits sum.splits)

lemma assure_eq:
  "assure_db_collection_exists w =
     (let w0 = snd (get_qdrant_client w) in
      if \<not> connects w then (Stop, w0)
      else
        (let w1 = w0\<lparr>calls := calls w0 @ [CollectionExists QDRANT_COLLECTION_NAME]\<rparr> in
         if failing w (after_probe w) then (Stop, w1)
         else case notes_collection w of
           Some c \<Rightarrow> (Return (), w1)
         | None \<Rightarrow>
             (let w2 = w1\<lparr>calls := calls w1 @
                         [CreateCollection QDRANT_COLLECTION_NAME EMBEDDING_DIM COSINE]\<rparr> in
              if failing w (after_probe w + 1) then (Stop, w2)
              else (Return (),
                    w2\<lparr>collections := (collections w)
                         (QDRANT_COLLECTION_NAME \<mapsto>
                            \<lparr>vectors_size = EMBEDDING_DIM, vectors_distance = COSINE,
                             points = []\<rparr>)\<rparr>))))"
  by (auto simp add: assure_db_collection_exists_def get_qdrant_client_eq
      and_then_def try_except_def return_def st_stop_def request_def
      qdrant_collection_exists_def qdrant_create_collection_def
      Let_def notes_collection_def connects_def after_probe_def probe_calls_def
      split: option.splits)

lemma get_qdrant_client_calls:
  "calls (snd (get_qdrant_client w)) = calls w @ probe_calls w"
  by (simp add: get_qdrant_client_eq probe_calls_def split: option.splits)

lemma get_qdrant_client_collections [simp]:
  "collections (snd (get_qdrant_client w)) = collections w"
  by (simp add: get_qdrant_client_eq split: option.splits)

lemma get_qdrant_client_failing [simp]:
  "failing (snd (get_qdrant_client w)) = failing w"
  by (simp add: get_qdrant_client_eq split: option.splits)

lemma get_qdrant_client_fst:
  "fst (get_qdrant_client w) = Return (if connects w then Some QdrantClient else None)"
  by (cases "qdrant_cache w"; simp add: get_qdrant_client_eq connects_def)
    (metis qdrant_client.exhaust option.exhaust)

lemma new_calls_append [simp]: "calls w' = calls w @ cs \<Longrightarrow> new_calls w w' = cs"
  by (simp add: new_calls_def)

lemma length_upsert_point:
  "length (upsert_point p qs) =
     (if point_id p \<in> point_id ` set qs then length qs else Suc (length qs))"
  by (induction qs) auto

lemma ids_upsert_point:
  "point_id ` set (upsert_point p qs) = insert (point_id p) (point_id ` set qs)"
  by (induction qs) auto

lemmas sample_simps = sample_world_def sample_point_def connects_def after_probe_def
  probe_calls_def notes_collection_def notes_count_def notes_ids_def has_api_key_def
  get_secret_def QDRANT_COLLECTION_NAME_def

lemma unscored_results_Inr:
  "unscored_results ps = Inr rs \<Longrightarrow>
     length rs = length ps \<and> (\<forall>n \<in> set rs. res_score n = None)"
  by (induction ps arbitrary: rs) (auto split: sum.splits)

lemma scored_results_Inr:
  "scored_results hs = Inr rs \<Longrightarrow>
     length rs = length hs \<and> map res_score rs = map Some (map hit_score hs)"
  by (induction hs arbitrary: rs) (auto split: sum.splits)

lemma length_ranked: "length (ranked f ps limit) \<le> limit"
  by (simp add: ranked_def)

lemma sorted_ranked: "sorted_wrt (\<ge>) (map hit_score (ranked f ps limit))"
proof -
  let ?hs = "sort_key (\<lambda>h. - hit_score h) (map (score_point f) ps)"
  have "sorted (map (\<lambda>h. - hit_score h) ?hs)"
    by (rule sorted_sort_key)
  then have "sorted_wrt (\<lambda>a b. hit_score a \<ge> hit_score b) ?hs"
    by (simp add: sorted_wrt_map)
  then have "sorted_wrt (\<lambda>a b. hit_score a \<ge> hit_score b) (take limit ?hs)"
    by (rule sorted_wrt_take)
  then show ?thesis
    by (simp add: ranked_def sorted_wrt_map)
qed

lemma unranked_calls:
  "\<not> truthy query \<Longrightarrow>
   set (new_calls w (snd (list_notes_from_db query w)))
     \<subseteq> {GetCollections, Scroll QDRANT_COLLECTION_NAME 10}"
  by (auto simp add: list_notes_eq Let_def get_qdrant_client_calls new_calls_def
      probe_calls_def split: option.splits sum.splits if_splits)

lemma unranked_result:
  "\<not> truthy query \<Longrightarrow>
   \<exists>ns. fst (list_notes_from_db query w) = Return ns
     \<and> (ns = [] \<or> (\<exists>c. notes_collection w = Some c
            \<and> unscored_results (take 10 (points c)) = Inr ns))"
  by (auto simp add: list_notes_eq Let_def split: option.splits sum.splits)

lemma scored_results_eq:
  "scored_results hs =
     (if \<forall>h \<in> set hs. map_of (hit_payload h) ''text'' \<noteq> None
      then Inr (map (\<lambda>h. \<lparr>res_text = the (map_of (hit_payload h) ''text''),
                            res_score = Some (hit_score h)\<rparr>) hs)
      else Inl KeyError)"
  by (induction hs) (auto simp add: payload_text_def split: option.splits)

lemma scored_results_iff:
  "scored_results hs = Inr rs \<longleftrightarrow>
     (\<forall>h \<in> set hs. map_of (hit_payload h) ''text'' \<noteq> None)
     \<and> rs = map (\<lambda>h. \<lparr>res_text = the (map_of (hit_payload h) ''text''),
                       res_score = Some (hit_score h)\<rparr>) hs"
  by (auto simp add: scored_results_eq)

lemma ranked_calls:
  "truthy query \<Longrightarrow>
   new_calls w (snd (list_notes_from_db query w)) =
     probe_calls w @
     (if connects w \<and> has_api_key w then
        EmbeddingsCreate [the query] EMBEDDING_MODEL EMBEDDING_DIM #
        (if failing w (after_probe w) then []
         else case embeddings_api w [the query] EMBEDDING_MODEL EMBEDDING_DIM of
                [] \<Rightarrow> []
              | v # _ \<Rightarrow> [Search QDRANT_COLLECTION_NAME v 10])
      else [])"
  by (auto simp add: list_notes_eq Let_def get_qdrant_client_calls new_calls_def
      split: option.splits sum.splits list.splits)

lemma ranked_result:
  "truthy query \<Longrightarrow> fst (list_notes_from_db query w) = Return ns \<Longrightarrow>
     ns = [] \<or>
     (\<exists>c v vs. notes_collection w = Some c
        \<and> embeddings_api w [the query] EMBEDDING_MODEL EMBEDDING_DIM = v # vs
        \<and> scored_results (ranked (similarity w (vectors_distance c) v) (points c) 10) = Inr ns)"
  by (auto simp add: list_notes_eq Let_def
      split: option.splits sum.splits list.splits if_splits)

lemma upsert_point_new:
  "point_id p \<notin> point_id ` set qs \<Longrightarrow> upsert_point p qs = qs @ [p]"
  by (induction qs) auto

lemma upsert_point_old:
  "point_id p \<in> point_id ` set qs \<Longrightarrow>
     \<exists>i < length qs. point_id (qs ! i) = point_id p
        \<and> (\<forall>j < i. point_id (qs ! j) \<noteq> point_id p)
        \<and> upsert_point p qs = qs[i := p]"
proof (induction qs)
  case Nil
  then show ?case by simp
next
  case (Cons q qs)
  show ?case
  proof (cases "point_id q = point_id p")
    case True
    then have "0 < length (q # qs) \<and> point_id ((q # qs) ! 0) = point_id p
        \<and> (\<forall>j < 0. point_id ((q # qs) ! j) \<noteq> point_id p)
        \<and> upsert_point p (q # qs) = (q # qs)[0 := p]"
      by simp
    then show ?thesis by blast
  next
    case False
    with Cons.prems have "point_id p \<in> point_id ` set qs" by auto
    from Cons.IH [OF this] obtain i where i: "i < length qs"
      "point_id (qs ! i) = point_id p" "\<forall>j < i. point_id (qs ! j) \<noteq> point_id p"
      "upsert_point p qs = qs[i := p]"
      by blast
    have "\<forall>j < Suc i. point_id ((q # qs) ! j) \<noteq> point_id p"
    proof (intro allI impI)
      fix j assume "j < Suc i"
      then show "point_id ((q # qs) ! j) \<noteq> point_id p"
        using False i(3) by (cases j) auto
    qed
    with i False have "Suc i < length (q # qs) \<and> point_id ((q # qs) ! Suc i) = point_id p
        \<and> (\<forall>j < Suc i. point_id ((q # qs) ! j) \<noteq> point_id p)
        \<and> upsert_point p (q # qs) = (q # qs)[Suc i := p]"
      by simp
    then show ?thesis by blast
  qed
qed

lemma upserted_collection:
  assumes "add_note_to_db t w = (Return True, w')"
  shows "\<exists>c v vs. notes_collection w = Some c
           \<and> embeddings_api w [t] EMBEDDING_MODEL EMBEDDING_DIM = v # vs
           \<and> notes_collection w' = Some (c\<lparr>points := upsert_point
                \<lparr>point_id = length (points c) + 1, point_vector = v,
                  point_payload = [(''text'', t)]\<rparr> (points c)\<rparr>)"
  using assms
  by (auto simp add: add_note_eq Let_def notes_collection_def
      split: option.splits list.splits if_splits)

lemma filter_mutation_probe [simp]: "filter is_mutation (probe_calls w) = []"
  by (simp add: probe_calls_def)

lemma assure_keeps_existing:
  "notes_collection w \<noteq> None \<Longrightarrow>
     collections (snd (assure_db_collection_exists w)) = collections w
     \<and> filter is_mutation (new_calls w (snd (assure_db_collection_exists w))) = []"
  by (auto simp add: assure_eq Let_def new_calls_def
      get_qdrant_client_calls)

lemma qdrant_client_unique [simp]: "(client = QdrantClient) \<longleftrightarrow> True"
  by (cases client) simp

lemma assure_returns:
  "assure_db_collection_exists w = (Return (), w1) \<Longrightarrow>
     notes_collection w1 \<noteq> None
     \<and> (notes_collection w = None \<longrightarrow> notes_collection w1 =
           Some \<lparr>vectors_size = 3072, vectors_distance = COSINE, points = []\<rparr>)
     \<and> qdrant_cache w1 = Some (Some QdrantClient)"
  by (auto simp add: assure_eq Let_def notes_collection_def
      get_qdrant_client_eq connects_def EMBEDDING_DIM_def
      split: option.splits if_splits)

lemma a_request_failed_iff:
  "a_request_failed w w' \<longleftrightarrow>
     (\<exists>i. length (calls w) \<le> i \<and> i < length (calls w') \<and> failing w i)"
  by (auto simp add: a_request_failed_def list_ex_iff)

lemma add_note_outcome:
  "(\<forall>e. fst (add_note_to_db t w) \<noteq> Raise e) \<and> fst (add_note_to_db t w) \<noteq> Rerun
   \<and> (has_api_key w \<longrightarrow> (\<exists>b. fst (add_note_to_db t w) = Return b))
   \<and> (\<not> connects w \<longrightarrow> fst (add_note_to_db t w) = Return False)"
  by (auto simp add: add_note_eq Let_def split: option.splits list.splits)

lemma list_notes_outcome:
  "(\<forall>e. fst (list_notes_from_db q w) \<noteq> Raise e) \<and> fst (list_notes_from_db q w) \<noteq> Rerun
   \<and> (has_api_key w \<longrightarrow> (\<exists>ns. fst (list_notes_from_db q w) = Return ns))
   \<and> (\<not> connects w \<longrightarrow> fst (list_notes_from_db q w) = Return [])"
  by (auto simp add: list_notes_eq Let_def split: option.splits list.splits sum.splits)

lemma add_note_failed:
  "a_request_failed w (snd (add_note_to_db t w)) \<Longrightarrow> fst (add_note_to_db t w) = Return False"
  by (auto simp add: a_request_failed_iff add_note_eq Let_def get_qdrant_client_calls
      after_probe_def probe_calls_def connects_def less_Suc_eq
      split: option.splits list.splits if_splits)

lemma list_notes_failed:
  "a_request_failed w (snd (list_notes_from_db q w)) \<Longrightarrow> fst (list_notes_from_db q w) = Return []"
  by (auto simp add: a_request_failed_iff list_notes_eq Let_def get_qdrant_client_calls
      after_probe_def probe_calls_def connects_def less_Suc_eq
      split: option.splits list.splits sum.splits if_splits)

lemma filter_repository_probe [simp]: "filter is_repository_call (probe_calls w) = []"
  by (simp add: probe_calls_def)

lemma bootstrap_and_tabs_unavailable:
  "\<not> connects w \<Longrightarrow> bootstrap_and_tabs u w = (Stop, snd (get_qdrant_client w))"
  by (simp add: bootstrap_and_tabs_def and_then_def assure_eq Let_def)

lemma get_qdrant_client_unavailable:
  "\<not> connects w \<Longrightarrow> qdrant_cache (snd (get_qdrant_client w)) = Some None"
  by (auto simp add: get_qdrant_client_eq connects_def split: option.splits)

lemma connects_frame [simp]:
  "connects (w\<lparr>openai_api_key := k\<rparr>) = connects w"
  by (simp add: connects_def split: option.splits)

lemma probe_calls_frame [simp]:
  "probe_calls (w\<lparr>openai_api_key := k\<rparr>) = probe_calls w"
  by (simp add: probe_calls_def)

lemma script_eq:
  "script u w =
     (if clear_cache_button u then (Rerun, w\<lparr>qdrant_cache := None\<rparr>)
      else case api_key_protection u w of
             (Return x, w1) \<Rightarrow>
               if \<not> truthy (openai_api_key w1) then (Stop, w1) else bootstrap_and_tabs u w1
           | (Raise e, w1) \<Rightarrow> (Raise e, w1)
           | (Stop, w1) \<Rightarrow> (Stop, w1)
           | (Rerun, w1) \<Rightarrow> (Rerun, w1))"
  by (simp add: script_def and_then_def cache_resource_clear_def st_rerun_def st_stop_def
      return_def split: prod.splits outcome.splits)

lemma api_key_protection_cases:
  "\<exists>k. api_key_protection u w = (Return (), w) \<or>
       api_key_protection u w = (Return (), w\<lparr>openai_api_key := k\<rparr>) \<or>
       api_key_protection u w = (Rerun, w\<lparr>openai_api_key := k\<rparr>)"
  by (auto simp add: api_key_protection_def st_rerun_def Let_def split: option.splits)

lemma script_unavailable:
  assumes "\<not> connects w"
  shows "(\<forall>r. fst (script u w) \<noteq> Return r) \<and> (\<forall>e. fst (script u w) \<noteq> Raise e)
       \<and> filter is_repository_call (new_calls w (snd (script u w))) = []"
proof -
  from api_key_protection_cases [of u w] obtain k where
    "api_key_protection u w = (Return (), w) \<or>
       api_key_protection u w = (Return (), w\<lparr>openai_api_key := k\<rparr>) \<or>
       api_key_protection u w = (Rerun, w\<lparr>openai_api_key := k\<rparr>)" by blast
  with assms show ?thesis
    by (auto simp add: script_eq bootstrap_and_tabs_unavailable new_calls_def
        get_qdrant_client_calls split: if_splits)
qed

lemma script_memo_none:
  assumes "qdrant_cache w = Some None" and "\<not> clear_cache_button u"
  shows "qdrant_cache (snd (script u w)) = Some None"
proof -
  from api_key_protection_cases [of u w] obtain k where
    "api_key_protection u w = (Return (), w) \<or>
       api_key_protection u w = (Return (), w\<lparr>openai_api_key := k\<rparr>) \<or>
       api_key_protection u w = (Rerun, w\<lparr>openai_api_key := k\<rparr>)" by blast
  moreover from assms have "\<not> connects w" by (simp add: connects_def)
  ultimately show ?thesis using assms
    by (auto simp add: script_eq bootstrap_and_tabs_unavailable get_qdrant_client_eq
        split: if_splits)
qed

lemmas world_simps = fresh_world_def offline_world_def failing_world_def drafting_world_def
  search_ui_def reconnect_ui_def

lemma has_api_key_session [simp]:
  "has_api_key (w\<lparr>note_text := a\<rparr>) = has_api_key w"
  "has_api_key (w\<lparr>note_audio_text := b\<rparr>) = has_api_key w"
  "has_api_key (w\<lparr>note_audio_bytes := c\<rparr>) = has_api_key w"
  "has_api_key (w\<lparr>note_audio_bytes_md5 := d\<rparr>) = has_api_key w"
  by (simp_all add: has_api_key_def get_secret_def)

lemma has_api_key_get_qdrant_client [simp]:
  "has_api_key (snd (get_qdrant_client w)) = has_api_key w"
  by (simp add: get_qdrant_client_eq split: option.splits)

lemma has_api_key_add_note [simp]:
  "has_api_key (snd (add_note_to_db t w)) = has_api_key w"
  by (simp add: add_note_eq Let_def split: option.splits list.splits)

lemma has_api_key_captured [simp]:
  "has_api_key (note_audio_captured audio w) = has_api_key w"
  by (simp add: note_audio_captured_def Let_def)

lemma transcribe_step_key:
  "has_api_key w \<Longrightarrow>
     fst (transcribe_step u w) \<noteq> Stop \<and> has_api_key (snd (transcribe_step u w))"
  by (simp add: transcribe_step_def transcribe_audio_def get_openai_client_eq
      openai_transcriptions_create_def and_then_def request_def Let_def)

lemma edit_step_key:
  "fst (edit_step u w) \<noteq> Stop \<and> has_api_key (snd (edit_step u w)) = has_api_key w"
  by (simp add: edit_step_def)

lemma save_step_key:
  "has_api_key w \<Longrightarrow> fst (save_step u w) \<noteq> Stop"
  using add_note_outcome [of "note_text w" w]
  by (auto simp add: save_step_def and_then_def split: prod.splits outcome.splits)

lemma save_step_keeps_key:
  "has_api_key (snd (save_step u w)) = has_api_key w"
proof -
  obtain out x where r: "add_note_to_db (note_text w) w = (out, x)"
    by (cases "add_note_to_db (note_text w) w")
  have "has_api_key (snd (add_note_to_db (note_text w) w)) = has_api_key w" by simp
  with r have "has_api_key x = has_api_key w" by simp
  with r show ?thesis
    by (cases out) (simp_all add: save_step_def and_then_def)
qed

lemma add_tab_key:
  assumes "has_api_key w"
  shows "fst (add_tab u w) \<noteq> Stop \<and> has_api_key (snd (add_tab u w))"
proof (cases "recording u")
  case None
  with assms show ?thesis by (simp add: add_tab_def)
next
  case (Some audio)
  let ?w0 = "note_audio_captured audio w"
  have k0: "has_api_key ?w0" using assms by simp
  obtain o1 w1 where t: "transcribe_step u ?w0 = (o1, w1)"
    by (cases "transcribe_step u ?w0")
  from transcribe_step_key [OF k0, of u] t have o1: "o1 \<noteq> Stop" and k1: "has_api_key w1"
    by simp_all
  obtain o2 w2 where e: "edit_step u w1 = (o2, w2)"
    by (cases "edit_step u w1")
  from edit_step_key [of u w1] e k1 have o2: "o2 \<noteq> Stop" and k2: "has_api_key w2"
    by simp_all
  from save_step_key [OF k2, of u] save_step_keeps_key [of u w2] k2
  have s: "fst (save_step u w2) \<noteq> Stop" "has_api_key (snd (save_step u w2))"
    by simp_all
  from Some t e o1 o2 k1 k2 s show ?thesis
    by (cases o1; cases o2) (simp_all add: add_tab_def and_then_def)
qed

lemma tabs_never_stop:
  assumes "has_api_key w"
  shows "fst (tabs u w) \<noteq> Stop"
proof -
  obtain o1 w1 where a: "add_tab u w = (o1, w1)" by (cases "add_tab u w")
  from add_tab_key [OF assms, of u] a have o1: "o1 \<noteq> Stop" and k1: "has_api_key w1"
    by simp_all
  from list_notes_outcome [of "Some (query_input u)" w1] k1
  obtain ns where "fst (list_notes_from_db (Some (query_input u)) w1) = Return ns"
    by blast
  then have "fst (search_tab u w1) \<noteq> Stop"
    by (cases "list_notes_from_db (Some (query_input u)) w1")
      (simp add: search_tab_def and_then_def return_def)
  with a o1 show ?thesis
    by (cases o1) (simp_all add: tabs_def and_then_def)
qed

lemma has_api_key_assure [simp]:
  "has_api_key (snd (assure_db_collection_exists w)) = has_api_key w"
  by (simp add: assure_eq Let_def split: option.splits)

lemma truthy_has_api_key: "truthy (openai_api_key w) \<Longrightarrow> has_api_key w"
  by (simp add: has_api_key_def)

lemma bootstrap_and_tabs_stop_origin:
  assumes "has_api_key w" and "fst (bootstrap_and_tabs u w) = Stop"
  shows "fst (assure_db_collection_exists w) = Stop"
proof -
  obtain out w1 where a: "assure_db_collection_exists w = (out, w1)"
    by (cases "assure_db_collection_exists w")
  have "has_api_key (snd (assure_db_collection_exists w))" using assms(1) by simp
  with a have "has_api_key w1" by simp
  from tabs_never_stop [OF this, of u] a assms(2) show ?thesis
    by (cases out) (simp_all add: bootstrap_and_tabs_def and_then_def)
qed

lemma script_stop_origin:
  assumes "fst (script u w) = Stop"
  shows "\<not> truthy (openai_api_key (snd (api_key_protection u w)))
       \<or> fst (assure_db_collection_exists (snd (api_key_protection u w))) = Stop"
proof -
  obtain out w1 where p: "api_key_protection u w = (out, w1)"
    by (cases "api_key_protection u w")
  show ?thesis
  proof (cases "truthy (openai_api_key w1)")
    case False
    with p show ?thesis by simp
  next
    case True
    then have k: "has_api_key w1" by (rule truthy_has_api_key)
    from api_key_protection_cases [of u w] p have "out = Return () \<or> out = Rerun"
      by auto
    with assms p True have "fst (bootstrap_and_tabs u w1) = Stop"
      by (auto simp add: script_eq split: if_splits)
    from bootstrap_and_tabs_stop_origin [OF k this] p show ?thesis by simp
  qed
qed

lemma bootstrap_and_tabs_stops:
  assumes "\<not> connects w \<or> failing w (after_probe w)
           \<or> (notes_collection w = None \<and> failing w (after_probe w + 1))"
  shows "fst (bootstrap_and_tabs u w) = Stop
     \<and> filter is_repository_call (new_calls w (snd (bootstrap_and_tabs u w))) = []
     \<and> qdrant_cache (snd (bootstrap_and_tabs u w)) = qdrant_cache (snd (get_qdrant_client w))"
  using assms
  by (auto simp add: bootstrap_and_tabs_def and_then_def assure_eq Let_def
      new_calls_def get_qdrant_client_calls split: option.splits)

lemma after_probe_frame [simp]:
  "after_probe (w\<lparr>openai_api_key := k\<rparr>) = after_probe w"
  by (simp add: after_probe_def probe_calls_def)

lemma notes_collection_frame [simp]:
  "notes_collection (w\<lparr>openai_api_key := k\<rparr>) = notes_collection w"
  by (simp add: notes_collection_def)

lemma script_stops:
  assumes "\<not> connects w \<or> failing w (after_probe w)
           \<or> (notes_collection w = None \<and> failing w (after_probe w + 1))"
  shows "(\<forall>r. fst (script u w) \<noteq> Return r) \<and> (\<forall>e. fst (script u w) \<noteq> Raise e)
       \<and> filter is_repository_call (new_calls w (snd (script u w))) = []"
proof -
  from api_key_protection_cases [of u w] obtain k where
    k: "api_key_protection u w = (Return (), w) \<or>
       api_key_protection u w = (Return (), w\<lparr>openai_api_key := k\<rparr>) \<or>
       api_key_protection u w = (Rerun, w\<lparr>openai_api_key := k\<rparr>)" by blast
  let ?w = "w\<lparr>openai_api_key := k\<rparr>"
  have a': "\<not> connects ?w \<or> failing ?w (after_probe ?w)
           \<or> (notes_collection ?w = None \<and> failing ?w (after_probe ?w + 1))"
    using assms by simp
  note b = bootstrap_and_tabs_stops [OF assms, of u] bootstrap_and_tabs_stops [OF a', of u]
  have c: "new_calls w (snd (bootstrap_and_tabs u ?w))
             = new_calls ?w (snd (bootstrap_and_tabs u ?w))"
    by (simp add: new_calls_def)
  from k b c show ?thesis
    by (auto simp add: script_eq new_calls_def split: if_splits)
qed

lemma cached_client_halts:
  assumes "qdrant_cache w = Some (Some QdrantClient)" and "failing w (length (calls w))"
  shows "bootstrap_and_tabs u w =
           (Stop, w\<lparr>calls := calls w @ [CollectionExists QDRANT_COLLECTION_NAME]\<rparr>)"
  using assms
  by (simp add: bootstrap_and_tabs_def and_then_def assure_eq get_qdrant_client_eq Let_def
      connects_def after_probe_def probe_calls_def)

lemma cached_client_retry:
  assumes "qdrant_cache w = Some (Some QdrantClient)"
    and "\<not> failing w (length (calls w))"
    and "notes_collection w = None \<longrightarrow> \<not> failing w (length (calls w) + 1)"
  shows "fst (assure_db_collection_exists w) = Return ()
       \<and> bootstrap_and_tabs u w = tabs u (snd (assure_db_collection_exists w))"
  using assms
  by (auto simp add: bootstrap_and_tabs_def and_then_def assure_eq get_qdrant_client_eq Let_def
      connects_def after_probe_def probe_calls_def split: option.splits)

lemma script_with_key:
  "\<not> clear_cache_button u \<Longrightarrow> truthy (openai_api_key w) \<Longrightarrow>
     script u w = bootstrap_and_tabs u w"
  by (simp add: script_eq api_key_protection_def)

lemma failing_run:
  "script search_ui failing_world =
     (Stop, failing_world\<lparr>calls := [CollectionExists QDRANT_COLLECTION_NAME]\<rparr>)"
  by (simp add: script_eq api_key_protection_def bootstrap_and_tabs_def and_then_def assure_eq
      get_qdrant_client_eq Let_def world_simps sample_simps)

lemma recovered_world_eq:
  "recovered_world =
     failing_world\<lparr>calls := [CollectionExists QDRANT_COLLECTION_NAME],
       failing := (\<lambda>k. False)\<rparr>"
  by (simp add: recovered_world_def failing_run)

lemma recovered_run:
  "script search_ui recovered_world =
     (Return (Some []),
      recovered_world\<lparr>calls :=
        [CollectionExists QDRANT_COLLECTION_NAME, CollectionExists QDRANT_COLLECTION_NAME,
         EmbeddingsCreate [''milk''] EMBEDDING_MODEL EMBEDDING_DIM,
         Search QDRANT_COLLECTION_NAME (replicate EMBEDDING_DIM 0) 10]\<rparr>)"
  by (simp add: recovered_world_eq script_eq api_key_protection_def
      bootstrap_and_tabs_def tabs_def add_tab_def search_tab_def
      and_then_def return_def
      assure_eq list_notes_eq get_qdrant_client_eq
      ranked_def score_point_def
      Let_def world_simps sample_simps)

section \<open>Bootstrap of the collection\<close>

text \<open>
  Claim C2. \<^verbatim>\<open>assure_db_collection_exists\<close> is idempotent. In every world where the
  collection exists, a call changes nothing in the store and sends neither a create nor
  an upsert request. After a call that returned, the collection exists (with 3072
  dimensions, the cosine metric and no points if that call created it), and a second call
  leaves the store, hence the schema and the point count of the collection, as they are,
  sends no mutating request, and returns when its one request does not fail.
\<close>

theorem assure_db_collection_exists_idempotent:
  "(notes_collection w \<noteq> None \<longrightarrow>
      collections (snd (assure_db_collection_exists w)) = collections w
      \<and> filter is_mutation (new_calls w (snd (assure_db_collection_exists w))) = [])
   \<and> (\<forall>w1. assure_db_collection_exists w = (Return (), w1) \<longrightarrow>
        notes_collection w1 \<noteq> None
        \<and> (notes_collection w = None \<longrightarrow> notes_collection w1 =
              Some \<lparr>vectors_size = 3072, vectors_distance = COSINE, points = []\<rparr>)
        \<and> collections (snd (assure_db_collection_exists w1)) = collections w1
        \<and> notes_collection (snd (assure_db_collection_exists w1)) = notes_collection w1
        \<and> notes_count (snd (assure_db_collection_exists w1)) = notes_count w1
        \<and> filter is_mutation (new_calls w1 (snd (assure_db_collection_exists w1))) = []
        \<and> (\<not> failing w1 (length (calls w1)) \<longrightarrow>
             fst (assure_db_collection_exists w1) = Return ()))"
proof (intro conjI allI impI)
  assume "notes_collection w \<noteq> None"
  then show "collections (snd (assure_db_collection_exists w)) = collections w"
    and "filter is_mutation (new_calls w (snd (assure_db_collection_exists w))) = []"
    by (simp_all add: assure_keeps_existing)
next
  fix w1 assume run: "assure_db_collection_exists w = (Return (), w1)"
  from assure_returns [OF run] have
    ex: "notes_collection w1 \<noteq> None" and
    cache: "qdrant_cache w1 = Some (Some QdrantClient)" by simp_all
  show "notes_collection w1 \<noteq> None" by (rule ex)
  from assure_keeps_existing [OF ex] show
    same: "collections (snd (assure_db_collection_exists w1)) = collections w1"
    and "filter is_mutation (new_calls w1 (snd (assure_db_collection_exists w1))) = []"
    by simp_all
  from same show "notes_collection (snd (assure_db_collection_exists w1)) = notes_collection w1"
    and "notes_count (snd (assure_db_collection_exists w1)) = notes_count w1"
    by (simp_all add: notes_collection_def notes_count_def)
  { assume "notes_collection w = None"
    with assure_returns [OF run] show "notes_collection w1 =
              Some \<lparr>vectors_size = 3072, vectors_distance = COSINE, points = []\<rparr>"
      by simp }
  { assume "\<not> failing w1 (length (calls w1))"
    with ex cache show "fst (assure_db_collection_exists w1) = Return ()"
      by (auto simp add: assure_eq Let_def connects_def after_probe_def
          probe_calls_def) }
qed

text \<open>
  In the sample world the collection exists and the call leaves the store alone; in the
  fresh world the first call creates the collection and the second changes nothing.
\<close>

theorem assure_db_collection_exists_idempotent_witness:
  "notes_collection (sample_world []) \<noteq> None
   \<and> collections (snd (assure_db_collection_exists (sample_world [])))
       = collections (sample_world [])
   \<and> fst (assure_db_collection_exists fresh_world) = Return ()
   \<and> notes_collection (snd (assure_db_collection_exists fresh_world))
       = Some \<lparr>vectors_size = 3072, vectors_distance = COSINE, points = []\<rparr>
   \<and> collections (snd (assure_db_collection_exists (snd (assure_db_collection_exists fresh_world))))
       = collections (snd (assure_db_collection_exists fresh_world))
   \<and> fst (assure_db_collection_exists (snd (assure_db_collection_exists fresh_world))) = Return ()"
proof -
  let ?w1 = "snd (assure_db_collection_exists fresh_world)"
  have e: "notes_collection (sample_world []) \<noteq> None"
    by (simp add: sample_simps)
  have r: "fst (assure_db_collection_exists fresh_world) = Return ()"
    and n: "notes_collection fresh_world = None"
    and f: "\<not> failing ?w1 (length (calls ?w1))"
    by (simp_all add: assure_eq get_qdrant_client_eq Let_def world_simps
        sample_simps)
  from r have run: "assure_db_collection_exists fresh_world = (Return (), ?w1)"
    by (metis prod.collapse)
  from assure_db_collection_exists_idempotent [of "sample_world []"]
    assure_db_collection_exists_idempotent [of fresh_world] e r n f run
  show ?thesis by blast
qed

text \<open>
  Claim C8, as amended. Whenever the bootstrap fails (no client is to be had, the
  existence check fails, or the creation of a missing collection fails), the run halts
  there: the script from the bootstrap on yields \<open>Stop\<close> whatever the widgets say, the
  whole script neither completes nor raises, and none of the requests of
  \<^verbatim>\<open>add_note_to_db\<close> and \<^verbatim>\<open>list_notes_from_db\<close> is sent. When no client is to be had
  (the probe of \<^verbatim>\<open>get_qdrant_client\<close> fails, or the memo holds \<^verbatim>\<open>None\<close> from an earlier
  failure), only the probe is sent and the memo then holds \<^verbatim>\<open>None\<close>; while it does, every
  run that does not press the clear-cache button fails to complete and leaves the memo
  as it is, whether or not the store can be reached again. Pressing the button empties
  the memo and restarts the script, and from the emptied memo the bootstrap returns when
  its requests do not fail. When a client is in the memo and the existence check fails,
  the run halts after that one request and leaves the memo as it is; in the world it
  leaves behind, as soon as the requests of the bootstrap no longer fail, the bootstrap
  returns and the run goes on to the tabs, with the memo untouched and no button needed.
\<close>

theorem bootstrap_unreachable_halts:
  "(\<not> connects w \<or> failing w (after_probe w)
      \<or> (notes_collection w = None \<and> failing w (after_probe w + 1)) \<longrightarrow>
      fst (bootstrap_and_tabs u w) = Stop
      \<and> filter is_repository_call (new_calls w (snd (bootstrap_and_tabs u w))) = []
      \<and> (\<forall>r. fst (script u w) \<noteq> Return r) \<and> (\<forall>e. fst (script u w) \<noteq> Raise e)
      \<and> filter is_repository_call (new_calls w (snd (script u w))) = [])
   \<and> (\<not> connects w \<longrightarrow>
      fst (bootstrap_and_tabs u w) = Stop
      \<and> new_calls w (snd (bootstrap_and_tabs u w)) = probe_calls w
      \<and> qdrant_cache (snd (bootstrap_and_tabs u w)) = Some None)
   \<and> (qdrant_cache w = Some None \<and> \<not> clear_cache_button u \<longrightarrow>
        (\<forall>r. fst (script u w) \<noteq> Return r)
        \<and> qdrant_cache (snd (script u w)) = Some None)
   \<and> (clear_cache_button u \<longrightarrow> script u w = (Rerun, w\<lparr>qdrant_cache := None\<rparr>))
   \<and> (\<not> failing w (length (calls w)) \<and> \<not> failing w (length (calls w) + 1)
        \<and> \<not> failing w (length (calls w) + 2) \<longrightarrow>
        fst (assure_db_collection_exists (w\<lparr>qdrant_cache := None\<rparr>)) = Return ())
   \<and> (qdrant_cache w = Some (Some QdrantClient) \<and> failing w (length (calls w)) \<longrightarrow>
        bootstrap_and_tabs u w =
          (Stop, w\<lparr>calls := calls w @ [CollectionExists QDRANT_COLLECTION_NAME]\<rparr>)
        \<and> (\<not> clear_cache_button u \<and> truthy (openai_api_key w) \<longrightarrow>
             script u w =
               (Stop, w\<lparr>calls := calls w @ [CollectionExists QDRANT_COLLECTION_NAME]\<rparr>))
        \<and> (\<forall>f u'. \<not> f (length (calls w) + 1)
               \<and> (notes_collection w = None \<longrightarrow> \<not> f (length (calls w) + 2)) \<longrightarrow>
               qdrant_cache
                 (w\<lparr>calls := calls w @ [CollectionExists QDRANT_COLLECTION_NAME],
                    failing := f\<rparr>) = qdrant_cache w
               \<and> fst (assure_db_collection_exists
                     (w\<lparr>calls := calls w @ [CollectionExists QDRANT_COLLECTION_NAME],
                        failing := f\<rparr>)) = Return ()
               \<and> bootstrap_and_tabs u'
                     (w\<lparr>calls := calls w @ [CollectionExists QDRANT_COLLECTION_NAME],
                        failing := f\<rparr>)
                   = tabs u' (snd (assure_db_collection_exists
                     (w\<lparr>calls := calls w @ [CollectionExists QDRANT_COLLECTION_NAME],
                        failing := f\<rparr>)))
               \<and> (\<not> clear_cache_button u' \<and> truthy (openai_api_key w) \<longrightarrow>
                    script u'
                     (w\<lparr>calls := calls w @ [CollectionExists QDRANT_COLLECTION_NAME],
                        failing := f\<rparr>)
                   = tabs u' (snd (assure_db_collection_exists
                     (w\<lparr>calls := calls w @ [CollectionExists QDRANT_COLLECTION_NAME],
                        failing := f\<rparr>))))))"
proof (intro conjI impI)
  assume a: "\<not> connects w \<or> failing w (after_probe w)
      \<or> (notes_collection w = None \<and> failing w (after_probe w + 1))"
  from bootstrap_and_tabs_stops [OF a, of u]
  show "fst (bootstrap_and_tabs u w) = Stop"
    and "filter is_repository_call (new_calls w (snd (bootstrap_and_tabs u w))) = []"
    by simp_all
  from script_stops [OF a, of u]
  show "\<forall>r. fst (script u w) \<noteq> Return r" and "\<forall>e. fst (script u w) \<noteq> Raise e"
    and "filter is_repository_call (new_calls w (snd (script u w))) = []"
    by simp_all
next
  assume un: "\<not> connects w"
  then show "fst (bootstrap_and_tabs u w) = Stop"
    by (simp add: bootstrap_and_tabs_unavailable)
  from un show "new_calls w (snd (bootstrap_and_tabs u w)) = probe_calls w"
    by (simp add: bootstrap_and_tabs_unavailable new_calls_def get_qdrant_client_calls)
  from un show "qdrant_cache (snd (bootstrap_and_tabs u w)) = Some None"
    by (simp add: bootstrap_and_tabs_unavailable get_qdrant_client_unavailable)
next
  assume a: "qdrant_cache w = Some None \<and> \<not> clear_cache_button u"
  then have "\<not> connects w" by (simp add: connects_def)
  from script_unavailable [OF this, of u] show "\<forall>r. fst (script u w) \<noteq> Return r" by simp
  from a show "qdrant_cache (snd (script u w)) = Some None"
    by (simp add: script_memo_none)
next
  assume "clear_cache_button u"
  then show "script u w = (Rerun, w\<lparr>qdrant_cache := None\<rparr>)"
    by (simp add: script_eq)
next
  assume "\<not> failing w (length (calls w)) \<and> \<not> failing w (length (calls w) + 1)
        \<and> \<not> failing w (length (calls w) + 2)"
  then show "fst (assure_db_collection_exists (w\<lparr>qdrant_cache := None\<rparr>)) = Return ()"
    by (auto simp add: assure_eq Let_def connects_def after_probe_def
        probe_calls_def split: option.splits)
next
  assume c: "qdrant_cache w = Some (Some QdrantClient) \<and> failing w (length (calls w))"
  then show h: "bootstrap_and_tabs u w =
          (Stop, w\<lparr>calls := calls w @ [CollectionExists QDRANT_COLLECTION_NAME]\<rparr>)"
    by (simp add: cached_client_halts)
  { assume "\<not> clear_cache_button u \<and> truthy (openai_api_key w)"
    with h show "script u w =
               (Stop, w\<lparr>calls := calls w @ [CollectionExists QDRANT_COLLECTION_NAME]\<rparr>)"
      by (simp add: script_with_key) }
  show "\<forall>f u'. \<not> f (length (calls w) + 1)
               \<and> (notes_collection w = None \<longrightarrow> \<not> f (length (calls w) + 2)) \<longrightarrow>
               qdrant_cache
                 (w\<lparr>calls := calls w @ [CollectionExists QDRANT_COLLECTION_NAME],
                    failing := f\<rparr>) = qdrant_cache w
               \<and> fst (assure_db_collection_exists
                     (w\<lparr>calls := calls w @ [CollectionExists QDRANT_COLLECTION_NAME],
                        failing := f\<rparr>)) = Return ()
               \<and> bootstrap_and_tabs u'
                     (w\<lparr>calls := calls w @ [CollectionExists QDRANT_COLLECTION_NAME],
                        failing := f\<rparr>)
                   = tabs u' (snd (assure_db_collection_exists
                     (w\<lparr>calls := calls w @ [CollectionExists QDRANT_COLLECTION_NAME],
                        failing := f\<rparr>)))
               \<and> (\<not> clear_cache_button u' \<and> truthy (openai_api_key w) \<longrightarrow>
                    script u'
                     (w\<lparr>calls := calls w @ [CollectionExists QDRANT_COLLECTION_NAME],
                        failing := f\<rparr>)
                   = tabs u' (snd (assure_db_collection_exists
                     (w\<lparr>calls := calls w @ [CollectionExists QDRANT_COLLECTION_NAME],
                        failing := f\<rparr>))))"
  proof (intro allI impI)
    fix f u'
    let ?w1 = "w\<lparr>calls := calls w @ [CollectionExists QDRANT_COLLECTION_NAME], failing := f\<rparr>"
    assume f: "\<not> f (length (calls w) + 1)
               \<and> (notes_collection w = None \<longrightarrow> \<not> f (length (calls w) + 2))"
    have 1: "qdrant_cache ?w1 = Some (Some QdrantClient)" using c by simp
    have 2: "\<not> failing ?w1 (length (calls ?w1))" using f by simp
    have 3: "notes_collection ?w1 = None \<longrightarrow> \<not> failing ?w1 (length (calls ?w1) + 1)"
      using f by (simp add: notes_collection_def)
    from cached_client_retry [OF 1 2 3, of u']
    have r: "fst (assure_db_collection_exists ?w1) = Return ()"
      "bootstrap_and_tabs u' ?w1 = tabs u' (snd (assure_db_collection_exists ?w1))"
      by simp_all
    have s: "\<not> clear_cache_button u' \<and> truthy (openai_api_key w) \<longrightarrow>
               script u' ?w1 = tabs u' (snd (assure_db_collection_exists ?w1))"
      using r(2) by (simp add: script_with_key)
    have m: "qdrant_cache ?w1 = qdrant_cache w" by simp
    from m r s show "qdrant_cache ?w1 = qdrant_cache w
               \<and> fst (assure_db_collection_exists ?w1) = Return ()
               \<and> bootstrap_and_tabs u' ?w1 = tabs u' (snd (assure_db_collection_exists ?w1))
               \<and> (\<not> clear_cache_button u' \<and> truthy (openai_api_key w) \<longrightarrow>
                    script u' ?w1 = tabs u' (snd (assure_db_collection_exists ?w1)))"
      by (intro conjI)
  qed
qed

text \<open>
  With the store offline the run halts at the probe; with \<^verbatim>\<open>None\<close> in the memo and the
  store back, a run still does not complete, the button restarts the script with an empty
  memo, and the bootstrap then returns. With a client in the memo and a store that fails
  every request, the run halts at the existence check, and the bootstrap returns once
  requests succeed again.
\<close>

theorem bootstrap_unreachable_halts_witness:
  "\<not> connects offline_world
   \<and> fst (bootstrap_and_tabs search_ui offline_world) = Stop
   \<and> new_calls offline_world (snd (bootstrap_and_tabs search_ui offline_world)) = [GetCollections]
   \<and> filter is_repository_call
        (new_calls offline_world (snd (script search_ui offline_world))) = []
   \<and> qdrant_cache (snd (bootstrap_and_tabs search_ui offline_world)) = Some None
   \<and> (\<forall>r. fst (script search_ui ((sample_world [])\<lparr>qdrant_cache := Some None\<rparr>)) \<noteq> Return r)
   \<and> script reconnect_ui ((sample_world [])\<lparr>qdrant_cache := Some None\<rparr>)
       = (Rerun, (sample_world [])\<lparr>qdrant_cache := None\<rparr>)
   \<and> fst (assure_db_collection_exists ((sample_world [])\<lparr>qdrant_cache := None\<rparr>)) = Return ()
   \<and> script search_ui failing_world
       = (Stop, failing_world\<lparr>calls := [CollectionExists QDRANT_COLLECTION_NAME]\<rparr>)
   \<and> fst (assure_db_collection_exists
            (failing_world\<lparr>calls := [CollectionExists QDRANT_COLLECTION_NAME],
               failing := (\<lambda>k. False)\<rparr>)) = Return ()"
proof -
  let ?w = "(sample_world [])\<lparr>qdrant_cache := Some None\<rparr>"
  have c: "\<not> connects offline_world"
    and p: "probe_calls offline_world = [GetCollections]"
    and m: "qdrant_cache ?w = Some None \<and> \<not> clear_cache_button search_ui"
    and b: "clear_cache_button reconnect_ui"
    and f: "\<not> failing ?w (length (calls ?w)) \<and> \<not> failing ?w (length (calls ?w) + 1)
        \<and> \<not> failing ?w (length (calls ?w) + 2)"
    and u: "?w\<lparr>qdrant_cache := None\<rparr> = (sample_world [])\<lparr>qdrant_cache := None\<rparr>"
    and k: "qdrant_cache failing_world = Some (Some QdrantClient)
              \<and> failing failing_world (length (calls failing_world))"
    and s: "\<not> clear_cache_button search_ui \<and> truthy (openai_api_key failing_world)"
    and e: "calls failing_world = []"
    and n: "\<not> (\<lambda>k. False) (length (calls failing_world) + 1)
             \<and> (notes_collection failing_world = None
                  \<longrightarrow> \<not> (\<lambda>k. False) (length (calls failing_world) + 2))"
    by (simp_all add: world_simps sample_simps)
  note A = bootstrap_unreachable_halts [of offline_world search_ui, THEN conjunct1]
  note B = bootstrap_unreachable_halts [of offline_world search_ui, THEN conjunct2, THEN conjunct1]
  note C = bootstrap_unreachable_halts [of ?w search_ui, THEN conjunct2, THEN conjunct2,
    THEN conjunct1]
  note D = bootstrap_unreachable_halts [of ?w reconnect_ui, THEN conjunct2, THEN conjunct2,
    THEN conjunct2, THEN conjunct1]
  note E = bootstrap_unreachable_halts [of ?w reconnect_ui, THEN conjunct2, THEN conjunct2,
    THEN conjunct2, THEN conjunct2, THEN conjunct1]
  note F = bootstrap_unreachable_halts [of failing_world search_ui, THEN conjunct2,
    THEN conjunct2, THEN conjunct2, THEN conjunct2, THEN conjunct2]
  from A c have 2: "filter is_repository_call
        (new_calls offline_world (snd (script search_ui offline_world))) = []"
    by simp
  from B c have 1: "fst (bootstrap_and_tabs search_ui offline_world) = Stop"
    and 9: "new_calls offline_world (snd (bootstrap_and_tabs search_ui offline_world))
               = probe_calls offline_world"
    and 3: "qdrant_cache (snd (bootstrap_and_tabs search_ui offline_world)) = Some None"
    by simp_all
  from C m have 4: "\<forall>r. fst (script search_ui ?w) \<noteq> Return r"
    by simp
  from D b have 5: "script reconnect_ui ?w = (Rerun, ?w\<lparr>qdrant_cache := None\<rparr>)"
    by simp
  from E f have 6: "fst (assure_db_collection_exists (?w\<lparr>qdrant_cache := None\<rparr>)) = Return ()"
    by simp
  from F [THEN mp, OF k] have G: "\<not> clear_cache_button search_ui \<and> truthy (openai_api_key failing_world) \<longrightarrow>
             script search_ui failing_world =
               (Stop, failing_world\<lparr>calls := calls failing_world @
                  [CollectionExists QDRANT_COLLECTION_NAME]\<rparr>)"
    and H: "\<forall>f u'. \<not> f (length (calls failing_world) + 1)
               \<and> (notes_collection failing_world = None
                    \<longrightarrow> \<not> f (length (calls failing_world) + 2)) \<longrightarrow>
               qdrant_cache
                 (failing_world\<lparr>calls := calls failing_world @
                      [CollectionExists QDRANT_COLLECTION_NAME],
                    failing := f\<rparr>) = qdrant_cache failing_world
               \<and> fst (assure_db_collection_exists
                     (failing_world\<lparr>calls := calls failing_world @
                      [CollectionExists QDRANT_COLLECTION_NAME],
                        failing := f\<rparr>)) = Return ()
               \<and> bootstrap_and_tabs u'
                     (failing_world\<lparr>calls := calls failing_world @
                      [CollectionExists QDRANT_COLLECTION_NAME],
                        failing := f\<rparr>)
                   = tabs u' (snd (assure_db_collection_exists
                     (failing_world\<lparr>calls := calls failing_world @
                      [CollectionExists QDRANT_COLLECTION_NAME],
                        failing := f\<rparr>)))
               \<and> (\<not> clear_cache_button u' \<and> truthy (openai_api_key failing_world) \<longrightarrow>
                    script u'
                     (failing_world\<lparr>calls := calls failing_world @
                      [CollectionExists QDRANT_COLLECTION_NAME],
                        failing := f\<rparr>)
                   = tabs u' (snd (assure_db_collection_exists
                     (failing_world\<lparr>calls := calls failing_world @
                      [CollectionExists QDRANT_COLLECTION_NAME],
                        failing := f\<rparr>))))"
    by (rule conjunct1 [OF conjunct2], rule conjunct2 [OF conjunct2])
  from G s have 7: "script search_ui failing_world =
      (Stop, failing_world\<lparr>calls := calls failing_world @
         [CollectionExists QDRANT_COLLECTION_NAME]\<rparr>)"
    by (rule mp)
  from H [THEN spec, THEN spec, THEN mp, OF n, of search_ui]
  have 8: "fst (assure_db_collection_exists
            (failing_world\<lparr>calls := calls failing_world @
                 [CollectionExists QDRANT_COLLECTION_NAME],
               failing := (\<lambda>k. False)\<rparr>)) = Return ()"
    by (rule conjunct1 [OF conjunct2])
  have r7: "script search_ui failing_world
       = (Stop, failing_world\<lparr>calls := [CollectionExists QDRANT_COLLECTION_NAME]\<rparr>)"
    using 7 by (simp only: e append_Nil)
  have r8: "fst (assure_db_collection_exists
            (failing_world\<lparr>calls := [CollectionExists QDRANT_COLLECTION_NAME],
               failing := (\<lambda>k. False)\<rparr>)) = Return ()"
    using 8 by (simp only: e append_Nil)
  have r9: "new_calls offline_world (snd (bootstrap_and_tabs search_ui offline_world))
       = [GetCollections]"
    using 9 by (simp only: p)
  have r5: "script reconnect_ui ?w = (Rerun, (sample_world [])\<lparr>qdrant_cache := None\<rparr>)"
    using 5 by (simp only: u)
  have r6: "fst (assure_db_collection_exists ((sample_world [])\<lparr>qdrant_cache := None\<rparr>)) = Return ()"
    using 6 by (simp only: u)
  from c 1 r9 2 3 4 r5 r6 r7 r8 show ?thesis by (intro conjI)
qed

text \<open>
  The claim as it was stated, for every way the store can be out of reach at the
  bootstrap, fails in its second half. With a client in the memo from an earlier run and
  a store that fails every request, a run that presses the search button halts at the
  existence check; once the store answers again, the same run, with the memo untouched
  and the clear-cache button not pressed, completes and shows the (empty) list of notes.
\<close>

theorem bootstrap_unreachable_halts_counterexample:
  "failing failing_world (length (calls failing_world))
   \<and> fst (script search_ui failing_world) = Stop
   \<and> \<not> clear_cache_button search_ui
   \<and> qdrant_cache recovered_world = qdrant_cache failing_world
   \<and> fst (script search_ui recovered_world) = Return (Some [])"
proof -
  have "failing failing_world (length (calls failing_world))"
    and "\<not> clear_cache_button search_ui"
    and "qdrant_cache recovered_world = qdrant_cache failing_world"
    by (simp_all add: recovered_world_eq world_simps sample_world_def)
  moreover have "fst (script search_ui failing_world) = Stop"
    by (simp add: failing_run)
  moreover have "fst (script search_ui recovered_world) = Return (Some [])"
    by (simp add: recovered_run)
  ultimately show ?thesis by simp
qed

section \<open>The embedding\<close>

text \<open>
  Claim C9. Under the provider's contract at the text (a request with
  \<^verbatim>\<open>dimensions: 3072\<close> is answered with one vector of length 3072), \<^verbatim>\<open>get_embedding\<close>
  returns a vector of exactly 3072 elements: it does return when a provider key is at
  hand and the request does not fail, and whatever it returns has that length. The one
  request it sends asks the model \<^verbatim>\<open>text-embedding-3-large\<close> for 3072 dimensions.
\<close>

theorem get_embedding_dimension:
  "(has_api_key w \<and> \<not> failing w (length (calls w)) \<and> provider_keeps_contract w t \<longrightarrow>
      (\<exists>v. fst (get_embedding t w) = Return v \<and> length v = 3072
           \<and> embeddings_api w [t] EMBEDDING_MODEL EMBEDDING_DIM = [v]))
   \<and> (\<forall>v. fst (get_embedding t w) = Return v \<and> provider_keeps_contract w t \<longrightarrow>
          length v = 3072)
   \<and> new_calls w (snd (get_embedding t w)) =
       (if has_api_key w then [EmbeddingsCreate [t] ''text-embedding-3-large'' 3072] else [])"
  by (auto simp add: get_embedding_eq provider_keeps_contract_def Let_def new_calls_def
      EMBEDDING_DIM_def EMBEDDING_MODEL_def split: list.splits)

theorem get_embedding_dimension_witness:
  "has_api_key (sample_world []) \<and> provider_keeps_contract (sample_world []) ''buy milk''
   \<and> (\<exists>v. fst (get_embedding ''buy milk'' (sample_world [])) = Return v \<and> length v = 3072)"
proof -
  have "has_api_key (sample_world [])"
    and "\<not> failing (sample_world []) (length (calls (sample_world [])))"
    and "provider_keeps_contract (sample_world []) ''buy milk''"
    by (simp_all add: sample_simps provider_keeps_contract_def EMBEDDING_DIM_def)
  with get_embedding_dimension [of "sample_world []" "''buy milk''"] show ?thesis by blast
qed

section \<open>Adding a note\<close>

text \<open>
  Claim C1. \<^verbatim>\<open>add_note_to_db\<close> returns \<^verbatim>\<open>True\<close> exactly when nothing stands in its way,
  and then it has sent, after the connection probe of an empty memo, exactly three
  requests in this order: the exact count of the collection, the embedding of the text,
  and the upsert of one point whose id is the count plus one, whose vector is the
  embedding and whose payload is the text; the collection then holds that point.
\<close>

theorem add_note_to_db_sequence:
  "(fst (add_note_to_db t w) = Return True \<longleftrightarrow> add_note_goes_through t w)
   \<and> (\<forall>w'. add_note_to_db t w = (Return True, w') \<longrightarrow>
         (\<exists>c v vs.
            notes_collection w = Some c
            \<and> embeddings_api w [t] EMBEDDING_MODEL EMBEDDING_DIM = v # vs
            \<and> new_calls w w' = probe_calls w @
                 [Count QDRANT_COLLECTION_NAME True,
                  EmbeddingsCreate [t] EMBEDDING_MODEL EMBEDDING_DIM,
                  Upsert QDRANT_COLLECTION_NAME
                    [\<lparr>point_id = length (points c) + 1, point_vector = v,
                      point_payload = [(''text'', t)]\<rparr>]]
            \<and> collections w' = (collections w)(QDRANT_COLLECTION_NAME \<mapsto>
                 c\<lparr>points := upsert_point
                      \<lparr>point_id = length (points c) + 1, point_vector = v,
                        point_payload = [(''text'', t)]\<rparr> (points c)\<rparr>)))"
proof (intro conjI allI impI)
  show "fst (add_note_to_db t w) = Return True \<longleftrightarrow> add_note_goes_through t w"
    by (auto simp add: add_note_eq add_note_goes_through_def Let_def
        split: option.splits list.splits)
next
  fix w' assume "add_note_to_db t w = (Return True, w')"
  then show "\<exists>c v vs.
            notes_collection w = Some c
            \<and> embeddings_api w [t] EMBEDDING_MODEL EMBEDDING_DIM = v # vs
            \<and> new_calls w w' = probe_calls w @
                 [Count QDRANT_COLLECTION_NAME True,
                  EmbeddingsCreate [t] EMBEDDING_MODEL EMBEDDING_DIM,
                  Upsert QDRANT_COLLECTION_NAME
                    [\<lparr>point_id = length (points c) + 1, point_vector = v,
                      point_payload = [(''text'', t)]\<rparr>]]
            \<and> collections w' = (collections w)(QDRANT_COLLECTION_NAME \<mapsto>
                 c\<lparr>points := upsert_point
                      \<lparr>point_id = length (points c) + 1, point_vector = v,
                        point_payload = [(''text'', t)]\<rparr> (points c)\<rparr>)"
    by (auto simp add: add_note_eq Let_def get_qdrant_client_calls new_calls_def
        split: option.splits list.splits if_splits)
qed

theorem add_note_to_db_sequence_witness:
  "add_note_goes_through ''buy milk'' (sample_world [])
   \<and> fst (add_note_to_db ''buy milk'' (sample_world [])) = Return True
   \<and> (\<exists>v. new_calls (sample_world []) (snd (add_note_to_db ''buy milk'' (sample_world []))) =
         [Count QDRANT_COLLECTION_NAME True,
          EmbeddingsCreate [''buy milk''] EMBEDDING_MODEL EMBEDDING_DIM,
          Upsert QDRANT_COLLECTION_NAME
            [\<lparr>point_id = 1, point_vector = v, point_payload = [(''text'', ''buy milk'')]\<rparr>]])"
proof -
  let ?w = "sample_world []"
  let ?r = "add_note_to_db ''buy milk'' ?w"
  note main = add_note_to_db_sequence [of "''buy milk''" ?w]
  have g: "add_note_goes_through ''buy milk'' ?w"
    by (simp add: add_note_goes_through_def sample_simps)
  with main have r: "fst ?r = Return True" by blast
  then have "?r = (Return True, snd ?r)" by (metis prod.collapse)
  with main obtain c v vs where
    c: "notes_collection ?w = Some c" and
    n: "new_calls ?w (snd ?r) = probe_calls ?w @
                 [Count QDRANT_COLLECTION_NAME True,
                  EmbeddingsCreate [''buy milk''] EMBEDDING_MODEL EMBEDDING_DIM,
                  Upsert QDRANT_COLLECTION_NAME
                    [\<lparr>point_id = length (points c) + 1, point_vector = v,
                      point_payload = [(''text'', ''buy milk'')]\<rparr>]]"
    by blast
  from c have "points c = []" by (auto simp add: sample_simps)
  moreover have "probe_calls ?w = []" by (simp add: sample_simps)
  ultimately show ?thesis using g r n by auto
qed

text \<open>
  Claim C7, as amended. A call of \<^verbatim>\<open>add_note_to_db\<close> that returns \<^verbatim>\<open>True\<close> adds the id
  count plus one to the ids of the collection; the exact count grows by one when no
  stored point has that id, and stays as it is when one has. When the ids are exactly 1
  up to the count, as they are in a collection that only \<^verbatim>\<open>add_note_to_db\<close> has written,
  the count grows by one and the ids are again 1 up to the count. The schema of the
  collection stays, and its points change in one place only: when no stored point has
  the id count plus one, the new point (that id, the embedding of the text, the text as
  payload) is added after the stored ones; when one has, the first stored point with
  that id is overwritten by the new point and all others stay.
\<close>

theorem add_note_to_db_count:
  assumes "add_note_to_db t w = (Return True, w')"
  shows "notes_count w' = (if notes_count w + 1 \<in> notes_ids w then notes_count w else notes_count w + 1)
       \<and> notes_ids w' = insert (notes_count w + 1) (notes_ids w)
       \<and> (notes_ids w = {1..notes_count w} \<longrightarrow>
            notes_count w' = notes_count w + 1 \<and> notes_ids w' = {1..notes_count w'})
       \<and> (\<exists>c c' v vs.
            notes_collection w = Some c \<and> notes_collection w' = Some c'
            \<and> embeddings_api w [t] EMBEDDING_MODEL EMBEDDING_DIM = v # vs
            \<and> vectors_size c' = vectors_size c \<and> vectors_distance c' = vectors_distance c
            \<and> (notes_count w + 1 \<notin> notes_ids w \<longrightarrow>
                 points c' = points c @
                   [\<lparr>point_id = notes_count w + 1, point_vector = v,
                     point_payload = [(''text'', t)]\<rparr>])
            \<and> (notes_count w + 1 \<in> notes_ids w \<longrightarrow>
                 (\<exists>i < length (points c).
                    point_id (points c ! i) = notes_count w + 1
                    \<and> (\<forall>j < i. point_id (points c ! j) \<noteq> notes_count w + 1)
                    \<and> points c' = (points c)
                        [i := \<lparr>point_id = notes_count w + 1, point_vector = v,
                               point_payload = [(''text'', t)]\<rparr>])))"
proof -
  from upserted_collection [OF assms] obtain c v vs where
    c: "notes_collection w = Some c" and
    v: "embeddings_api w [t] EMBEDDING_MODEL EMBEDDING_DIM = v # vs" and
    c': "notes_collection w' = Some (c\<lparr>points := upsert_point
                \<lparr>point_id = length (points c) + 1, point_vector = v,
                  point_payload = [(''text'', t)]\<rparr> (points c)\<rparr>)"
    by blast
  let ?p = "\<lparr>point_id = notes_count w + 1, point_vector = v,
             point_payload = [(''text'', t)]\<rparr>"
  let ?c' = "c\<lparr>points := upsert_point ?p (points c)\<rparr>"
  have cnt: "notes_count w = length (points c)" and ids: "notes_ids w = point_id ` set (points c)"
    using c by (simp_all add: notes_count_def notes_ids_def)
  have c'': "notes_collection w' = Some ?c'"
    using c' cnt by simp
  have n: "notes_count w' = (if notes_count w + 1 \<in> notes_ids w then notes_count w else notes_count w + 1)"
    using c c'' by (simp add: notes_count_def notes_ids_def length_upsert_point)
  have i: "notes_ids w' = insert (notes_count w + 1) (notes_ids w)"
    using c c'' by (simp add: notes_count_def notes_ids_def ids_upsert_point)
  have inv: "notes_ids w = {1..notes_count w} \<longrightarrow>
            notes_count w' = notes_count w + 1 \<and> notes_ids w' = {1..notes_count w'}"
    using n i by auto
  have new: "notes_count w + 1 \<notin> notes_ids w \<longrightarrow> points ?c' = points c @ [?p]"
    using upsert_point_new [of ?p "points c"] ids by simp
  have old: "notes_count w + 1 \<in> notes_ids w \<longrightarrow>
                 (\<exists>i < length (points c).
                    point_id (points c ! i) = notes_count w + 1
                    \<and> (\<forall>j < i. point_id (points c ! j) \<noteq> notes_count w + 1)
                    \<and> points ?c' = (points c)[i := ?p])"
    using upsert_point_old [of ?p "points c"] ids by simp
  have 4: "\<exists>c c' v vs.
            notes_collection w = Some c \<and> notes_collection w' = Some c'
            \<and> embeddings_api w [t] EMBEDDING_MODEL EMBEDDING_DIM = v # vs
            \<and> vectors_size c' = vectors_size c \<and> vectors_distance c' = vectors_distance c
            \<and> (notes_count w + 1 \<notin> notes_ids w \<longrightarrow>
                 points c' = points c @
                   [\<lparr>point_id = notes_count w + 1, point_vector = v,
                     point_payload = [(''text'', t)]\<rparr>])
            \<and> (notes_count w + 1 \<in> notes_ids w \<longrightarrow>
                 (\<exists>i < length (points c).
                    point_id (points c ! i) = notes_count w + 1
                    \<and> (\<forall>j < i. point_id (points c ! j) \<noteq> notes_count w + 1)
                    \<and> points c' = (points c)
                        [i := \<lparr>point_id = notes_count w + 1, point_vector = v,
                               point_payload = [(''text'', t)]\<rparr>]))"
  proof (intro exI conjI)
    show "notes_collection w = Some c" by (rule c)
    show "notes_collection w' = Some ?c'" by (rule c'')
    show "embeddings_api w [t] EMBEDDING_MODEL EMBEDDING_DIM = v # vs" by (rule v)
    show "vectors_size ?c' = vectors_size c" by simp
    show "vectors_distance ?c' = vectors_distance c" by simp
    show "notes_count w + 1 \<notin> notes_ids w \<longrightarrow> points ?c' = points c @ [?p]" by (rule new)
    show "notes_count w + 1 \<in> notes_ids w \<longrightarrow>
                 (\<exists>i < length (points c).
                    point_id (points c ! i) = notes_count w + 1
                    \<and> (\<forall>j < i. point_id (points c ! j) \<noteq> notes_count w + 1)
                    \<and> points ?c' = (points c)[i := ?p])" by (rule old)
  qed
  from n i inv 4 show ?thesis by (intro conjI)
qed

theorem add_note_to_db_count_witness:
  "notes_ids (sample_world [sample_point 1 ''buy milk'' 1])
     = {1..notes_count (sample_world [sample_point 1 ''buy milk'' 1])}
   \<and> fst (add_note_to_db ''call mom'' (sample_world [sample_point 1 ''buy milk'' 1])) = Return True
   \<and> notes_count (snd (add_note_to_db ''call mom'' (sample_world [sample_point 1 ''buy milk'' 1]))) = 2
   \<and> fst (add_note_to_db ''call mom'' (sample_world [sample_point 2 ''buy milk'' 1])) = Return True
   \<and> (\<exists>c'. notes_collection
               (snd (add_note_to_db ''call mom'' (sample_world [sample_point 2 ''buy milk'' 1])))
             = Some c'
           \<and> points c' = [\<lparr>point_id = 2, point_vector = replicate EMBEDDING_DIM 0,
                            point_payload = [(''text'', ''call mom'')]\<rparr>])"
proof -
  let ?w = "sample_world [sample_point 1 ''buy milk'' 1]"
  let ?r = "add_note_to_db ''call mom'' ?w"
  have r: "fst ?r = Return True"
    by (simp add: add_note_eq get_qdrant_client_eq Let_def sample_simps)
  then have run: "?r = (Return True, snd ?r)" by (metis prod.collapse)
  have i: "notes_ids ?w = {1..notes_count ?w}" and n: "notes_count ?w = 1"
    by (simp_all add: sample_simps)
  from add_note_to_db_count [OF run] i n have 1: "notes_count (snd ?r) = 2" by simp
  let ?u = "sample_world [sample_point 2 ''buy milk'' 1]"
  let ?s = "add_note_to_db ''call mom'' ?u"
  have s: "fst ?s = Return True"
    by (simp add: add_note_eq get_qdrant_client_eq Let_def sample_simps)
  then have run2: "?s = (Return True, snd ?s)" by (metis prod.collapse)
  have u: "notes_count ?u + 1 \<in> notes_ids ?u" "notes_count ?u = 1"
    and uc: "notes_collection ?u = Some \<lparr>vectors_size = EMBEDDING_DIM,
               vectors_distance = COSINE, points = [sample_point 2 ''buy milk'' 1]\<rparr>"
    and ue: "embeddings_api ?u [''call mom''] EMBEDDING_MODEL EMBEDDING_DIM
               = [replicate EMBEDDING_DIM 0]"
    by (simp_all add: sample_simps)
  from add_note_to_db_count [OF run2] u uc ue
  have 2: "\<exists>c'. notes_collection (snd ?s) = Some c'
           \<and> points c' = [\<lparr>point_id = 2, point_vector = replicate EMBEDDING_DIM 0,
                            point_payload = [(''text'', ''call mom'')]\<rparr>]"
    by auto
  from i r 1 s 2 show ?thesis by blast
qed

text \<open>
  The claim as it was stated, for every successful call, fails: in a collection whose
  only point has the id 2 the count is 1, the new note gets the id 2, and the call
  returns \<^verbatim>\<open>True\<close> with the count still 1.
\<close>

theorem add_note_to_db_count_counterexample:
  "\<not> (fst (add_note_to_db ''call mom'' (sample_world [sample_point 2 ''buy milk'' 1])) = Return True
      \<longrightarrow> notes_count (snd (add_note_to_db ''call mom'' (sample_world [sample_point 2 ''buy milk'' 1])))
          = notes_count (sample_world [sample_point 2 ''buy milk'' 1]) + 1)"
  by (simp add: add_note_eq get_qdrant_client_eq connects_def after_probe_def probe_calls_def
      notes_collection_def notes_count_def has_api_key_def sample_world_def sample_point_def
      QDRANT_COLLECTION_NAME_def Let_def)

section \<open>Listing and searching notes\<close>

text \<open>
  Claim C4. Without a query \<^verbatim>\<open>list_notes_from_db\<close> always returns, at most 10 results,
  each with the score \<^verbatim>\<open>None\<close>. Besides the connection probe it sends at most one
  request, a scroll of the collection with limit 10, and no embedding request. The
  results are empty or those of the records of that scroll, and they are those of the
  scroll whenever a client is at hand and the scroll does not fail.
\<close>

theorem list_notes_from_db_unranked:
  "\<exists>ns. fst (list_notes_from_db None w) = Return ns
     \<and> length ns \<le> 10
     \<and> (\<forall>n \<in> set ns. res_score n = None)
     \<and> set (new_calls w (snd (list_notes_from_db None w)))
          \<subseteq> {GetCollections, Scroll QDRANT_COLLECTION_NAME 10}
     \<and> filter is_embedding_call (new_calls w (snd (list_notes_from_db None w))) = []
     \<and> (ns = [] \<or> (\<exists>c. notes_collection w = Some c
            \<and> unscored_results (take 10 (points c)) = Inr ns))
     \<and> (connects w \<and> \<not> failing w (after_probe w) \<longrightarrow>
          (\<forall>c rs. notes_collection w = Some c
             \<and> unscored_results (take 10 (points c)) = Inr rs \<longrightarrow> ns = rs))"
proof -
  let ?r = "list_notes_from_db None w"
  have q: "\<not> truthy None" by simp
  from unranked_result [OF q, of w] obtain ns where
    r: "fst ?r = Return ns" and
    page: "ns = [] \<or> (\<exists>c. notes_collection w = Some c
            \<and> unscored_results (take 10 (points c)) = Inr ns)"
    by blast
  have cs: "set (new_calls w (snd ?r)) \<subseteq> {GetCollections, Scroll QDRANT_COLLECTION_NAME 10}"
    by (rule unranked_calls [OF q])
  then have emb: "filter is_embedding_call (new_calls w (snd ?r)) = []"
    by (auto simp add: filter_empty_conv)
  from page have len: "length ns \<le> 10" and sc: "\<forall>n \<in> set ns. res_score n = None"
    by (auto dest: unscored_results_Inr)
  have full: "connects w \<and> \<not> failing w (after_probe w) \<longrightarrow>
          (\<forall>c rs. notes_collection w = Some c
             \<and> unscored_results (take 10 (points c)) = Inr rs \<longrightarrow> ns = rs)"
    using r by (auto simp add: list_notes_eq Let_def)
  from r len sc cs emb page full show ?thesis by blast
qed

theorem list_notes_from_db_unranked_witness:
  "connects (sample_world [sample_point 1 ''buy milk'' 1, sample_point 2 ''call mom'' 2])
   \<and> fst (list_notes_from_db None
            (sample_world [sample_point 1 ''buy milk'' 1, sample_point 2 ''call mom'' 2]))
      = Return [\<lparr>res_text = ''buy milk'', res_score = None\<rparr>,
                \<lparr>res_text = ''call mom'', res_score = None\<rparr>]"
proof -
  let ?w = "sample_world [sample_point 1 ''buy milk'' 1, sample_point 2 ''call mom'' 2]"
  let ?c = "\<lparr>vectors_size = EMBEDDING_DIM, vectors_distance = COSINE,
             points = [sample_point 1 ''buy milk'' 1, sample_point 2 ''call mom'' 2]\<rparr>"
  have h: "connects ?w" "\<not> failing ?w (after_probe ?w)" "notes_collection ?w = Some ?c"
    "unscored_results (take 10 (points ?c))
       = Inr [\<lparr>res_text = ''buy milk'', res_score = None\<rparr>,
              \<lparr>res_text = ''call mom'', res_score = None\<rparr>]"
    by (simp_all add: sample_simps payload_text_def)
  with list_notes_from_db_unranked [of ?w] show ?thesis by metis
qed

text \<open>
  Claim C5. For a non-empty query \<^verbatim>\<open>list_notes_from_db\<close> sends, after the connection
  probe and provided a client and a provider key are at hand, the embedding request for
  the query and then, if that did not fail and gave a vector, the search of the
  collection with that vector and limit 10, and nothing else; it halts only when a client
  is at hand and no provider key. Whatever it returns has at most 10 results, each with
  a score, in non-increasing order of score; unless it is empty, its results are, hit by
  hit and in the order of the hits, the score the store gave the hit and the text of the
  hit's payload. When a client and a provider key are at hand, neither request fails and
  every hit has a text, it returns exactly these results.
\<close>

theorem list_notes_from_db_ranked:
  assumes "q \<noteq> []"
  shows "new_calls w (snd (list_notes_from_db (Some q) w)) =
           probe_calls w @
           (if connects w \<and> has_api_key w then
              EmbeddingsCreate [q] EMBEDDING_MODEL EMBEDDING_DIM #
              (if failing w (after_probe w) then []
               else case embeddings_api w [q] EMBEDDING_MODEL EMBEDDING_DIM of
                      [] \<Rightarrow> []
                    | v # _ \<Rightarrow> [Search QDRANT_COLLECTION_NAME v 10])
            else [])
       \<and> (fst (list_notes_from_db (Some q) w) = Stop \<longleftrightarrow> connects w \<and> \<not> has_api_key w)
       \<and> (\<forall>ns. fst (list_notes_from_db (Some q) w) = Return ns \<longrightarrow>
            length ns \<le> 10
            \<and> (\<exists>ss. map res_score ns = map Some ss \<and> sorted_wrt (\<ge>) ss)
            \<and> (ns = [] \<or>
                (\<exists>c v vs. notes_collection w = Some c
                   \<and> embeddings_api w [q] EMBEDDING_MODEL EMBEDDING_DIM = v # vs
                   \<and> map res_score ns =
                       map (\<lambda>h. Some (hit_score h))
                         (ranked (similarity w (vectors_distance c) v) (points c) 10)
                   \<and> map (\<lambda>n. Some (res_text n)) ns =
                       map (\<lambda>h. map_of (hit_payload h) ''text'')
                         (ranked (similarity w (vectors_distance c) v) (points c) 10))))
       \<and> (connects w \<and> has_api_key w
            \<and> \<not> failing w (after_probe w) \<and> \<not> failing w (after_probe w + 1) \<longrightarrow>
           (\<forall>c v vs. notes_collection w = Some c
              \<and> embeddings_api w [q] EMBEDDING_MODEL EMBEDDING_DIM = v # vs
              \<and> (\<forall>h \<in> set (ranked (similarity w (vectors_distance c) v) (points c) 10).
                    map_of (hit_payload h) ''text'' \<noteq> None) \<longrightarrow>
              fst (list_notes_from_db (Some q) w) =
                Return (map (\<lambda>h. \<lparr>res_text = the (map_of (hit_payload h) ''text''),
                                     res_score = Some (hit_score h)\<rparr>)
                          (ranked (similarity w (vectors_distance c) v) (points c) 10))))"
proof (intro conjI allI impI)
  have t: "truthy (Some q)" using assms by simp
  from ranked_calls [OF t, of w]
  show "new_calls w (snd (list_notes_from_db (Some q) w)) =
           probe_calls w @
           (if connects w \<and> has_api_key w then
              EmbeddingsCreate [q] EMBEDDING_MODEL EMBEDDING_DIM #
              (if failing w (after_probe w) then []
               else case embeddings_api w [q] EMBEDDING_MODEL EMBEDDING_DIM of
                      [] \<Rightarrow> []
                    | v # _ \<Rightarrow> [Search QDRANT_COLLECTION_NAME v 10])
            else [])"
    by simp
  show "fst (list_notes_from_db (Some q) w) = Stop \<longleftrightarrow> connects w \<and> \<not> has_api_key w"
    using assms
    by (auto simp add: list_notes_eq Let_def split: option.splits sum.splits list.splits)
  fix ns
  assume r: "fst (list_notes_from_db (Some q) w) = Return ns"
  from ranked_result [OF t r]
  have page: "ns = [] \<or>
     (\<exists>c v vs. notes_collection w = Some c
        \<and> embeddings_api w [q] EMBEDDING_MODEL EMBEDDING_DIM = v # vs
        \<and> scored_results (ranked (similarity w (vectors_distance c) v) (points c) 10) = Inr ns)"
    by simp
  then show "ns = [] \<or>
                (\<exists>c v vs. notes_collection w = Some c
                   \<and> embeddings_api w [q] EMBEDDING_MODEL EMBEDDING_DIM = v # vs
                   \<and> map res_score ns =
                       map (\<lambda>h. Some (hit_score h))
                         (ranked (similarity w (vectors_distance c) v) (points c) 10)
                   \<and> map (\<lambda>n. Some (res_text n)) ns =
                       map (\<lambda>h. map_of (hit_payload h) ''text'')
                         (ranked (similarity w (vectors_distance c) v) (points c) 10))"
  proof
    assume "ns = []" then show ?thesis by simp
  next
    assume "\<exists>c v vs. notes_collection w = Some c
        \<and> embeddings_api w [q] EMBEDDING_MODEL EMBEDDING_DIM = v # vs
        \<and> scored_results (ranked (similarity w (vectors_distance c) v) (points c) 10) = Inr ns"
    then obtain c v vs where c: "notes_collection w = Some c"
      and v: "embeddings_api w [q] EMBEDDING_MODEL EMBEDDING_DIM = v # vs"
      and s: "scored_results (ranked (similarity w (vectors_distance c) v) (points c) 10) = Inr ns"
      by auto
    from s have "map res_score ns =
                       map (\<lambda>h. Some (hit_score h))
                         (ranked (similarity w (vectors_distance c) v) (points c) 10)"
      and "map (\<lambda>n. Some (res_text n)) ns =
                       map (\<lambda>h. map_of (hit_payload h) ''text'')
                         (ranked (similarity w (vectors_distance c) v) (points c) 10)"
      by (auto simp add: scored_results_iff)
    with c v show ?thesis by blast
  qed
  have hits: "ns = [] \<or> (\<exists>hs. length hs \<le> 10 \<and> sorted_wrt (\<ge>) (map hit_score hs)
                 \<and> scored_results hs = Inr ns)"
    using page length_ranked sorted_ranked by metis
  then show "length ns \<le> 10"
    by (auto dest: scored_results_Inr)
  from hits show "\<exists>ss. map res_score ns = map Some ss \<and> sorted_wrt (\<ge>) ss"
  proof
    assume "ns = []" then show ?thesis by simp
  next
    assume "\<exists>hs. length hs \<le> 10 \<and> sorted_wrt (\<ge>) (map hit_score hs)
                 \<and> scored_results hs = Inr ns"
    then obtain hs where "sorted_wrt (\<ge>) (map hit_score hs)" "scored_results hs = Inr ns"
      by auto
    then show ?thesis using scored_results_Inr by blast
  qed
next
  fix c :: collection and v vs
  let ?hits = "ranked (similarity w (vectors_distance c) v) (points c) 10"
  assume "connects w \<and> has_api_key w
            \<and> \<not> failing w (after_probe w) \<and> \<not> failing w (after_probe w + 1)"
    and g: "notes_collection w = Some c
              \<and> embeddings_api w [q] EMBEDDING_MODEL EMBEDDING_DIM = v # vs
              \<and> (\<forall>h \<in> set ?hits. map_of (hit_payload h) ''text'' \<noteq> None)"
  moreover from g have "scored_results ?hits =
      Inr (map (\<lambda>h. \<lparr>res_text = the (map_of (hit_payload h) ''text''),
                         res_score = Some (hit_score h)\<rparr>) ?hits)"
    by (simp add: scored_results_iff)
  ultimately show "fst (list_notes_from_db (Some q) w) =
                Return (map (\<lambda>h. \<lparr>res_text = the (map_of (hit_payload h) ''text''),
                                     res_score = Some (hit_score h)\<rparr>) ?hits)"
    using assms by (simp add: list_notes_eq Let_def)
qed

theorem list_notes_from_db_ranked_witness:
  "''milk'' \<noteq> []
   \<and> fst (list_notes_from_db (Some ''milk'')
            (sample_world [sample_point 1 ''call mom'' 1, sample_point 2 ''buy milk'' 2]))
      = Return [\<lparr>res_text = ''buy milk'', res_score = Some 2\<rparr>,
                \<lparr>res_text = ''call mom'', res_score = Some 1\<rparr>]
   \<and> new_calls (sample_world [sample_point 1 ''call mom'' 1, sample_point 2 ''buy milk'' 2])
        (snd (list_notes_from_db (Some ''milk'')
            (sample_world [sample_point 1 ''call mom'' 1, sample_point 2 ''buy milk'' 2])))
      = [EmbeddingsCreate [''milk''] EMBEDDING_MODEL EMBEDDING_DIM,
         Search QDRANT_COLLECTION_NAME (replicate EMBEDDING_DIM 0) 10]"
proof -
  let ?w = "sample_world [sample_point 1 ''call mom'' 1, sample_point 2 ''buy milk'' 2]"
  let ?c = "\<lparr>vectors_size = EMBEDDING_DIM, vectors_distance = COSINE,
             points = [sample_point 1 ''call mom'' 1, sample_point 2 ''buy milk'' 2]\<rparr>"
  let ?v = "replicate EMBEDDING_DIM (0::real)"
  let ?hits = "ranked (similarity ?w (vectors_distance ?c) ?v) (points ?c) 10"
  have q: "''milk'' \<noteq> []" by simp
  have h: "connects ?w \<and> has_api_key ?w
            \<and> \<not> failing ?w (after_probe ?w) \<and> \<not> failing ?w (after_probe ?w + 1)"
    and p: "probe_calls ?w = []"
    by (simp_all add: sample_simps)
  have hits: "?hits = [\<lparr>hit_id = 2, hit_payload = [(''text'', ''buy milk'')], hit_score = 2\<rparr>,
                       \<lparr>hit_id = 1, hit_payload = [(''text'', ''call mom'')], hit_score = 1\<rparr>]"
    by (simp add: sample_simps ranked_def score_point_def)
  have g: "notes_collection ?w = Some ?c
      \<and> embeddings_api ?w [''milk''] EMBEDDING_MODEL EMBEDDING_DIM = ?v # []
      \<and> (\<forall>h \<in> set ?hits. map_of (hit_payload h) ''text'' \<noteq> None)"
    unfolding hits by (simp add: sample_simps)
  from list_notes_from_db_ranked [OF q, of ?w] h g
  have "fst (list_notes_from_db (Some ''milk'') ?w) =
          Return (map (\<lambda>h. \<lparr>res_text = the (map_of (hit_payload h) ''text''),
                               res_score = Some (hit_score h)\<rparr>) ?hits)"
    by blast
  then have r: "fst (list_notes_from_db (Some ''milk'') ?w)
      = Return [\<lparr>res_text = ''buy milk'', res_score = Some 2\<rparr>,
                \<lparr>res_text = ''call mom'', res_score = Some 1\<rparr>]"
    unfolding hits by simp
  from list_notes_from_db_ranked [OF q, of ?w] h g p
  have "new_calls ?w (snd (list_notes_from_db (Some ''milk'') ?w))
      = [EmbeddingsCreate [''milk''] EMBEDDING_MODEL EMBEDDING_DIM,
         Search QDRANT_COLLECTION_NAME ?v 10]"
    by simp
  with q r show ?thesis by simp
qed

text \<open>
  Claim C10. The empty query is treated as no query: the call does what the call
  without a query does, sends neither an embedding nor a search request, and returns
  results whose score is \<^verbatim>\<open>None\<close>.
\<close>

theorem list_notes_from_db_empty_query:
  "list_notes_from_db (Some []) w = list_notes_from_db None w
   \<and> filter is_embedding_call (new_calls w (snd (list_notes_from_db (Some []) w))) = []
   \<and> filter is_search_call (new_calls w (snd (list_notes_from_db (Some []) w))) = []
   \<and> (\<exists>ns. fst (list_notes_from_db (Some []) w) = Return ns
         \<and> (\<forall>n \<in> set ns. res_score n = None))"
proof -
  let ?r = "list_notes_from_db (Some []) w"
  have q: "\<not> truthy (Some [])" by simp
  have same: "?r = list_notes_from_db None w"
    by (simp add: list_notes_from_db_def list_notes_from_db_body_def)
  have cs: "set (new_calls w (snd ?r)) \<subseteq> {GetCollections, Scroll QDRANT_COLLECTION_NAME 10}"
    by (rule unranked_calls [OF q])
  then have emb: "filter is_embedding_call (new_calls w (snd ?r)) = []"
    and srch: "filter is_search_call (new_calls w (snd ?r)) = []"
    by (auto simp add: filter_empty_conv)
  from unranked_result [OF q, of w] obtain ns where
    r: "fst ?r = Return ns" and
    page: "ns = [] \<or> (\<exists>c. notes_collection w = Some c
            \<and> unscored_results (take 10 (points c)) = Inr ns)"
    by blast
  from page have "\<forall>n \<in> set ns. res_score n = None"
    by (auto dest: unscored_results_Inr)
  with same emb srch r show ?thesis by blast
qed

theorem list_notes_from_db_empty_query_witness:
  "fst (list_notes_from_db None (sample_world [sample_point 1 ''buy milk'' 1]))
      = Return [\<lparr>res_text = ''buy milk'', res_score = None\<rparr>]
   \<and> fst (list_notes_from_db (Some []) (sample_world [sample_point 1 ''buy milk'' 1]))
      = Return [\<lparr>res_text = ''buy milk'', res_score = None\<rparr>]
   \<and> new_calls (sample_world [sample_point 1 ''buy milk'' 1])
        (snd (list_notes_from_db (Some []) (sample_world [sample_point 1 ''buy milk'' 1])))
      = [Scroll QDRANT_COLLECTION_NAME 10]"
proof -
  let ?w = "sample_world [sample_point 1 ''buy milk'' 1]"
  have "list_notes_from_db None ?w =
          (Return [\<lparr>res_text = ''buy milk'', res_score = None\<rparr>],
           ?w\<lparr>calls := [Scroll QDRANT_COLLECTION_NAME 10]\<rparr>)"
    by (simp add: list_notes_eq get_qdrant_client_eq Let_def sample_simps
        payload_text_def)
  moreover have "calls ?w = []" by (simp add: sample_world_def)
  ultimately show ?thesis
    using list_notes_from_db_empty_query [of ?w] by (simp add: new_calls_def)
qed

text \<open>
  Claim C6. \<^verbatim>\<open>add_note_to_db\<close> and \<^verbatim>\<open>list_notes_from_db\<close> never raise and never restart
  the script. When no client is to be had, when any request they send fails, or when
  their body raises any exception, \<^verbatim>\<open>add_note_to_db\<close> returns \<^verbatim>\<open>False\<close> and
  \<^verbatim>\<open>list_notes_from_db\<close> returns the empty list. With a provider key at hand they
  return; a key in the session, which is what the script's guard checks before it goes
  on, is such a key. So with a key at hand the tabs never halt the run, and a run of the
  script that halts has halted at that guard or in the bootstrap, not in either function.
\<close>

theorem repository_never_raises:
  "(\<forall>e. fst (add_note_to_db t w) \<noteq> Raise e) \<and> fst (add_note_to_db t w) \<noteq> Rerun
   \<and> (\<forall>e. fst (list_notes_from_db q w) \<noteq> Raise e) \<and> fst (list_notes_from_db q w) \<noteq> Rerun
   \<and> (has_api_key w \<longrightarrow>
        (\<exists>b. fst (add_note_to_db t w) = Return b)
        \<and> (\<exists>ns. fst (list_notes_from_db q w) = Return ns))
   \<and> (\<not> connects w \<longrightarrow>
        fst (add_note_to_db t w) = Return False \<and> fst (list_notes_from_db q w) = Return [])
   \<and> (a_request_failed w (snd (add_note_to_db t w)) \<longrightarrow>
        fst (add_note_to_db t w) = Return False)
   \<and> (a_request_failed w (snd (list_notes_from_db q w)) \<longrightarrow>
        fst (list_notes_from_db q w) = Return [])
   \<and> (\<forall>e. fst (add_note_to_db_body t w) = Raise e \<longrightarrow>
        fst (add_note_to_db t w) = Return False)
   \<and> (\<forall>e. fst (list_notes_from_db_body q w) = Raise e \<longrightarrow>
        fst (list_notes_from_db q w) = Return [])
   \<and> (truthy (openai_api_key w) \<longrightarrow>
        has_api_key w
        \<and> (\<exists>b. fst (add_note_to_db t w) = Return b)
        \<and> (\<exists>ns. fst (list_notes_from_db q w) = Return ns))
   \<and> (\<forall>u. has_api_key w \<longrightarrow> fst (tabs u w) \<noteq> Stop)
   \<and> (\<forall>u. fst (script u w) = Stop \<longrightarrow>
          \<not> truthy (openai_api_key (snd (api_key_protection u w)))
          \<or> fst (assure_db_collection_exists (snd (api_key_protection u w))) = Stop)"
proof -
  have old: "(\<forall>e. fst (add_note_to_db t w) \<noteq> Raise e) \<and> fst (add_note_to_db t w) \<noteq> Rerun
   \<and> (\<forall>e. fst (list_notes_from_db q w) \<noteq> Raise e) \<and> fst (list_notes_from_db q w) \<noteq> Rerun
   \<and> (has_api_key w \<longrightarrow>
        (\<exists>b. fst (add_note_to_db t w) = Return b)
        \<and> (\<exists>ns. fst (list_notes_from_db q w) = Return ns))
   \<and> (\<not> connects w \<longrightarrow>
        fst (add_note_to_db t w) = Return False \<and> fst (list_notes_from_db q w) = Return [])
   \<and> (a_request_failed w (snd (add_note_to_db t w)) \<longrightarrow>
        fst (add_note_to_db t w) = Return False)
   \<and> (a_request_failed w (snd (list_notes_from_db q w)) \<longrightarrow>
        fst (list_notes_from_db q w) = Return [])
   \<and> (\<forall>e. fst (add_note_to_db_body t w) = Raise e \<longrightarrow>
        fst (add_note_to_db t w) = Return False)
   \<and> (\<forall>e. fst (list_notes_from_db_body q w) = Raise e \<longrightarrow>
        fst (list_notes_from_db q w) = Return [])"
    using add_note_outcome [of t w] list_notes_outcome [of q w]
      add_note_failed [of w t] list_notes_failed [of w q]
    by (auto simp add: add_note_to_db_def list_notes_from_db_def try_except_def return_def
        split: prod.splits outcome.splits)
  have key: "truthy (openai_api_key w) \<longrightarrow>
        has_api_key w
        \<and> (\<exists>b. fst (add_note_to_db t w) = Return b)
        \<and> (\<exists>ns. fst (list_notes_from_db q w) = Return ns)"
    using add_note_outcome [of t w] list_notes_outcome [of q w] truthy_has_api_key [of w]
    by blast
  have tabs: "\<forall>u. has_api_key w \<longrightarrow> fst (tabs u w) \<noteq> Stop"
    using tabs_never_stop by blast
  have stop: "\<forall>u. fst (script u w) = Stop \<longrightarrow>
          \<not> truthy (openai_api_key (snd (api_key_protection u w)))
          \<or> fst (assure_db_collection_exists (snd (api_key_protection u w))) = Stop"
    using script_stop_origin by blast
  from old key tabs stop show ?thesis by (intro conjI) (elim conjE, assumption)+
qed

theorem repository_never_raises_witness:
  "has_api_key failing_world
   \<and> a_request_failed failing_world (snd (add_note_to_db ''buy milk'' failing_world))
   \<and> fst (add_note_to_db ''buy milk'' failing_world) = Return False
   \<and> a_request_failed failing_world (snd (list_notes_from_db (Some ''milk'') failing_world))
   \<and> fst (list_notes_from_db (Some ''milk'') failing_world) = Return []
   \<and> \<not> connects offline_world
   \<and> fst (add_note_to_db ''buy milk'' offline_world) = Return False
   \<and> fst (list_notes_from_db None offline_world) = Return []
   \<and> truthy (openai_api_key failing_world)
   \<and> fst (tabs search_ui failing_world) \<noteq> Stop"
proof -
  have k: "has_api_key failing_world"
    and a: "a_request_failed failing_world (snd (add_note_to_db ''buy milk'' failing_world))"
    and l: "a_request_failed failing_world
              (snd (list_notes_from_db (Some ''milk'') failing_world))"
    and c: "\<not> connects offline_world"
    and t: "truthy (openai_api_key failing_world)"
    by (simp_all add: a_request_failed_def add_note_eq list_notes_eq
        get_qdrant_client_eq Let_def world_simps sample_simps)
  note F = repository_never_raises [of "''buy milk''" failing_world "Some ''milk''"]
  note G = repository_never_raises [of "''buy milk''" offline_world None]
  from F a have 1: "fst (add_note_to_db ''buy milk'' failing_world) = Return False"
    by simp
  from F l have 2: "fst (list_notes_from_db (Some ''milk'') failing_world) = Return []"
    by simp
  from G c have 3: "fst (add_note_to_db ''buy milk'' offline_world) = Return False"
    and 4: "fst (list_notes_from_db None offline_world) = Return []"
    by simp_all
  from F k have 5: "fst (tabs search_ui failing_world) \<noteq> Stop"
    by blast
  from k a 1 l 2 c 3 4 t 5 show ?thesis by (intro conjI)
qed

section \<open>The draft\<close>

text \<open>
  Claim C3. When audio is captured whose digest is not the one stored in the draft, the
  transcript and the edited text become empty and the digest of the new audio is stored;
  when the digest is the stored one, the transcript, the edited text and the digest stay
  as they are. So a second capture of the same bytes, whatever the transcript and the
  edited text have become in between, does not reset them.
\<close>

theorem note_audio_captured_resets:
  "(note_audio_bytes_md5 w \<noteq> Some (md5_hexdigest w audio) \<longrightarrow>
      note_audio_text (note_audio_captured audio w) = []
      \<and> note_text (note_audio_captured audio w) = []
      \<and> note_audio_bytes_md5 (note_audio_captured audio w) = Some (md5_hexdigest w audio))
   \<and> (note_audio_bytes_md5 w = Some (md5_hexdigest w audio) \<longrightarrow>
      note_audio_text (note_audio_captured audio w) = note_audio_text w
      \<and> note_text (note_audio_captured audio w) = note_text w
      \<and> note_audio_bytes_md5 (note_audio_captured audio w) = note_audio_bytes_md5 w)
   \<and> note_audio_bytes (note_audio_captured audio w) = Some audio
   \<and> (\<forall>w1. md5_hexdigest w1 = md5_hexdigest w
          \<and> note_audio_bytes_md5 w1 = note_audio_bytes_md5 (note_audio_captured audio w) \<longrightarrow>
          note_audio_text (note_audio_captured audio w1) = note_audio_text w1
          \<and> note_text (note_audio_captured audio w1) = note_text w1)"
  by (simp add: note_audio_captured_def Let_def)

theorem note_audio_captured_resets_witness:
  "note_audio_bytes_md5 drafting_world \<noteq> Some (md5_hexdigest drafting_world [7, 8])
   \<and> note_text drafting_world = ''buy milk''
   \<and> note_text (note_audio_captured [7, 8] drafting_world) = []
   \<and> note_audio_text (note_audio_captured [7, 8] drafting_world) = []
   \<and> note_audio_bytes_md5 (note_audio_captured [7, 8] drafting_world) = Some ''aa''
   \<and> note_audio_bytes_md5 drafting_world = Some (md5_hexdigest drafting_world [1, 2, 3])
   \<and> note_text (note_audio_captured [1, 2, 3] drafting_world) = ''buy milk''
   \<and> note_audio_text (note_audio_captured [1, 2, 3] drafting_world) = ''buy mlik''"
proof -
  have d: "note_audio_bytes_md5 drafting_world \<noteq> Some (md5_hexdigest drafting_world [7, 8])"
    and s: "note_audio_bytes_md5 drafting_world = Some (md5_hexdigest drafting_world [1, 2, 3])"
    and v: "md5_hexdigest drafting_world [7, 8] = ''aa''"
      "note_text drafting_world = ''buy milk''" "note_audio_text drafting_world = ''buy mlik''"
    by (simp_all add: world_simps sample_world_def)
  from note_audio_captured_resets [of drafting_world "[7, 8]"]
    note_audio_captured_resets [of drafting_world "[1, 2, 3]"] d s v
  show ?thesis by simp
qed

end
